theory Spec2Isabelle
  imports Main "HOL-Library.Word"
begin

section \<open>Data model\<close>

text \<open>
  The repository holds two Go programs with the same three functions
  (\<^verbatim>\<open>main\<close>, \<^verbatim>\<open>getModelFiles\<close>, \<^verbatim>\<open>downloadFile\<close>): the full version
  \<^verbatim>\<open>src/main.go\<close>, which passes a \<^verbatim>\<open>DownloadConfig\<close> around and draws a progress
  bar, and the simple version \<^verbatim>\<open>src/unnamed/part_000\<close>, which passes three strings.
  The functions of the full version keep their names; those of the simple version carry
  the suffix \<open>_simple\<close>.

  A Go \<^verbatim>\<open>string\<close> is a sequence of bytes, as a HOL \<open>string\<close> is. \<^verbatim>\<open>int64\<close> is
  \<open>64 word\<close>, read as a signed number with \<open>sint\<close>.
\<close>

type_synonym byte = "8 word"

text \<open>\<^verbatim>\<open>type ModelInfo struct\<close> (main.go 18-23, part_000 16-21).\<close>

record ModelInfo =
  Name :: string
  Type :: string
  Size :: "64 word"
  Path :: string

text \<open>\<^verbatim>\<open>type DownloadConfig struct\<close> (main.go 26-32).\<close>

record DownloadConfig =
  ModelName :: string
  BaseURL :: string
  APIURL :: string
  OutputDir :: string
  ModelDir :: string

text \<open>
  One element of the anonymous struct slice \<^verbatim>\<open>apiResponse\<close> that the listing is decoded
  into (main.go 130-134). Its fields are \<^verbatim>\<open>Type\<close>, \<^verbatim>\<open>Path\<close>, \<^verbatim>\<open>Size\<close>; they are
  prefixed here to keep them apart from the fields of \<open>ModelInfo\<close>.
\<close>

record apiItem =
  item_Type :: string
  item_Path :: string
  item_Size :: "64 word"

text \<open>
  Every \<^verbatim>\<open>fmt.Errorf\<close> of the two programs is one constructor; a wrapped library error
  (\<^verbatim>\<open>%w\<close>) is kept as its message, a status code (\<^verbatim>\<open>%d\<close>) as the number.
\<close>

datatype error =
    FetchFailed string       \<comment> \<open>\<^verbatim>\<open>failed to fetch model info: %w\<close>\<close>
  | ApiStatus int            \<comment> \<open>\<^verbatim>\<open>API returned status: %d\<close>\<close>
  | DecodeFailed string      \<comment> \<open>\<^verbatim>\<open>failed to decode API response: %w\<close>\<close>
  | RequestFailed string     \<comment> \<open>\<^verbatim>\<open>failed to create request: %w\<close>\<close>
  | DownloadFailed string    \<comment> \<open>\<^verbatim>\<open>failed to download: %w\<close>\<close>
  | DownloadStatus int       \<comment> \<open>\<^verbatim>\<open>download failed with status: %d\<close>\<close>
  | CreateFailed string      \<comment> \<open>\<^verbatim>\<open>failed to create output file: %w\<close>\<close>
  | SaveFailed string        \<comment> \<open>\<^verbatim>\<open>failed to save file: %w\<close>\<close>

section \<open>The world outside the program\<close>

text \<open>
  What an HTTP round trip gives back: a transport-level error (no connection, timeout),
  or a response with its status code and body.
\<close>

datatype 'b http_result = TransportError string | Response int 'b

text \<open>The request built by \<^verbatim>\<open>downloadFile\<close>: method, URL and the headers set on it.\<close>

record request =
  req_method :: string
  req_url :: string
  req_header :: "(string \<times> string) list"

text \<open>
  The library and operating-system calls of the programs are parameters of the model,
  collected in one record. Each is a function of its argument.
  \<^item> \<open>filepath_Base\<close>, \<open>filepath_Join\<close>: Go's \<^verbatim>\<open>path/filepath\<close>, whose behaviour
    depends on the target platform (the instance for Unix-like targets is \<open>posix_Base\<close>,
    \<open>posix_Join\<close> below);
  \<^item> \<open>http_Get\<close>: \<^verbatim>\<open>http.Get\<close> on the listing URL; the body of a response is given as
    what \<^verbatim>\<open>json.NewDecoder(resp.Body).Decode(&apiResponse)\<close> makes of it: \<open>Inl\<close> the
    decoding error, \<open>Inr\<close> the decoded slice;
  \<^item> \<open>http_NewRequest\<close>: the error of \<^verbatim>\<open>http.NewRequest("GET", url, nil)\<close>, if any;
  \<^item> \<open>client_Do\<close>: \<^verbatim>\<open>client.Do(req)\<close>, the body being the bytes the server sends;
  \<^item> \<open>os_MkdirAll\<close>, \<open>os_Create\<close>: the error of the call on that path, if any;
  \<^item> \<open>io_Copy\<close>: how \<^verbatim>\<open>io.Copy\<close> of that body into the file at that path ends.
    Its second argument is the progress bar written to along with the file: \<open>Some max\<close>
    for a bar created with the maximum \<open>max\<close> (\<^verbatim>\<open>progressbar.NewOptions64(file.Size, ...)\<close>),
    \<open>None\<close> when the file is the only writer. The result is \<open>None\<close> when the whole body
    was copied and \<^verbatim>\<open>err == nil\<close>, \<open>Some (k, msg)\<close> when the copy stopped with an
    error (of the body, the file or the bar) after \<open>k\<close> bytes had reached the file.
\<close>

record env =
  filepath_Base :: "string \<Rightarrow> string"
  filepath_Join :: "string \<Rightarrow> string \<Rightarrow> string"
  http_Get :: "string \<Rightarrow> (string + apiItem list) http_result"
  http_NewRequest :: "string \<Rightarrow> string option"
  client_Do :: "request \<Rightarrow> byte list http_result"
  os_MkdirAll :: "string \<Rightarrow> string option"
  os_Create :: "string \<Rightarrow> string option"
  io_Copy :: "string \<Rightarrow> 64 word option \<Rightarrow> byte list \<Rightarrow> (nat \<times> string) option"

section \<open>The lister\<close>

text \<open>
  The \<^verbatim>\<open>ModelInfo\<close> literal built for one item (main.go 143-148, part_000 127-132).
\<close>

definition entry_of :: "env \<Rightarrow> apiItem \<Rightarrow> ModelInfo" where
  "entry_of e item =
     \<lparr>Name = filepath_Base e (item_Path item),
      Type = item_Type item,
      Size = item_Size item,
      Path = item_Path item\<rparr>"

text \<open>
  The loop of \<^verbatim>\<open>getModelFiles\<close> (main.go 140-150, part_000 124-134): \<open>files\<close> starts
  as the nil slice and each item of type \<^verbatim>\<open>"file"\<close> is appended to it.
\<close>

fun collect_files :: "env \<Rightarrow> apiItem list \<Rightarrow> ModelInfo list \<Rightarrow> ModelInfo list" where
  "collect_files e [] files = files"
| "collect_files e (item # rest) files =
     (if item_Type item = ''file''
      then collect_files e rest (files @ [entry_of e item])
      else collect_files e rest files)"

text \<open>\<^verbatim>\<open>func getModelFiles(config DownloadConfig) ([]ModelInfo, error)\<close> (main.go 117-153).\<close>

definition getModelFiles :: "env \<Rightarrow> DownloadConfig \<Rightarrow> error + ModelInfo list" where
  "getModelFiles e config =
     (let apiURL = APIURL config @ ''/models/'' @ ModelName config @ ''/tree/main''
      in case http_Get e apiURL of
           TransportError err \<Rightarrow> Inl (FetchFailed err)
         | Response status body \<Rightarrow>
             if status \<noteq> 200 then Inl (ApiStatus status)
             else (case body of
                     Inl err \<Rightarrow> Inl (DecodeFailed err)
                   | Inr apiResponse \<Rightarrow> Inr (collect_files e apiResponse [])))"

text \<open>
  \<^verbatim>\<open>func getModelFiles(apiURL, modelName string) ([]ModelInfo, error)\<close>
  (part_000 101-137).
\<close>

definition getModelFiles_simple :: "env \<Rightarrow> string \<Rightarrow> string \<Rightarrow> error + ModelInfo list" where
  "getModelFiles_simple e apiURL modelName =
     (let url = apiURL @ ''/models/'' @ modelName @ ''/tree/main''
      in case http_Get e url of
           TransportError err \<Rightarrow> Inl (FetchFailed err)
         | Response status body \<Rightarrow>
             if status \<noteq> 200 then Inl (ApiStatus status)
             else (case body of
                     Inl err \<Rightarrow> Inl (DecodeFailed err)
                   | Inr apiResponse \<Rightarrow> Inr (collect_files e apiResponse [])))"

section \<open>Library functions on strings and paths\<close>

text \<open>
  \<^verbatim>\<open>strings.ReplaceAll(s, old, new)\<close> for a non-empty \<open>old\<close>: the non-overlapping
  occurrences of \<open>old\<close> are replaced from left to right. The programs call it with
  \<^verbatim>\<open>"/"\<close> only; for the empty pattern, which Go matches before every UTF-8 sequence,
  this function leaves \<open>s\<close> as it is.
\<close>

function strings_ReplaceAll :: "string \<Rightarrow> string \<Rightarrow> string \<Rightarrow> string" where
  "strings_ReplaceAll [] old new = []"
| "strings_ReplaceAll (c # cs) old new =
     (if old \<noteq> [] \<and> take (length old) (c # cs) = old
      then new @ strings_ReplaceAll (drop (length old) (c # cs)) old new
      else c # strings_ReplaceAll cs old new)"
  by pat_completeness auto
termination
  by (relation "measure (\<lambda>(s, old, new). length s)") auto

text \<open>
  \<^verbatim>\<open>filepath.Base\<close> on a Unix-like target, where the separator is \<^verbatim>\<open>/\<close> and there is
  no volume name: the empty path gives \<^verbatim>\<open>"."\<close>; trailing slashes are stripped; what
  follows the last remaining slash is the result; a path of slashes only gives \<^verbatim>\<open>"/"\<close>.
\<close>

definition posix_Base :: "string \<Rightarrow> string" where
  "posix_Base path =
     (if path = [] then ''.''
      else let stripped = rev (dropWhile (\<lambda>c. c = CHR ''/'') (rev path));
               last_elem = rev (takeWhile (\<lambda>c. c \<noteq> CHR ''/'') (rev stripped))
           in if last_elem = [] then ''/'' else last_elem)"

text \<open>
  \<^verbatim>\<open>filepath.Clean\<close> on a Unix-like target, by path elements: the path is cut at its
  slashes; empty elements and \<^verbatim>\<open>.\<close> are dropped; \<^verbatim>\<open>..\<close> removes the element before it
  when there is one that is not itself \<^verbatim>\<open>..\<close>, is dropped at the root of a rooted path,
  and is kept otherwise; the elements left are put together with single slashes, after
  the leading slash of a rooted path; an empty result is \<^verbatim>\<open>"."\<close>.
\<close>

fun split_path :: "string \<Rightarrow> string list" where
  "split_path [] = [[]]"
| "split_path (c # cs) =
     (if c = CHR ''/'' then [] # split_path cs
      else (case split_path cs of
              [] \<Rightarrow> [[c]]
            | elem # elems \<Rightarrow> (c # elem) # elems))"

fun clean_elems :: "bool \<Rightarrow> string list \<Rightarrow> string list \<Rightarrow> string list" where
  "clean_elems rooted [] out = out"
| "clean_elems rooted (elem # rest) out =
     (if elem = [] \<or> elem = ''.'' then clean_elems rooted rest out
      else if elem = ''..'' then
        (if out \<noteq> [] \<and> last out \<noteq> ''..'' then clean_elems rooted rest (butlast out)
         else if rooted then clean_elems rooted rest out
         else clean_elems rooted rest (out @ [''..'']))
      else clean_elems rooted rest (out @ [elem]))"

fun join_elems :: "string list \<Rightarrow> string" where
  "join_elems [] = []"
| "join_elems [elem] = elem"
| "join_elems (elem # rest) = elem @ ''/'' @ join_elems rest"

definition posix_Clean :: "string \<Rightarrow> string" where
  "posix_Clean path =
     (if path = [] then ''.''
      else let rooted = (hd path = CHR ''/'');
               out = (if rooted then ''/'' else []) @
                     join_elems (clean_elems rooted (split_path path) [])
           in if out = [] then ''.'' else out)"

text \<open>
  \<^verbatim>\<open>filepath.Join\<close> of two elements on a Unix-like target: leading empty elements are
  ignored, the rest is joined with a slash and cleaned; with nothing left the result is
  the empty string.
\<close>

definition posix_Join :: "string \<Rightarrow> string \<Rightarrow> string" where
  "posix_Join a b =
     (if a \<noteq> [] then posix_Clean (a @ ''/'' @ b)
      else if b \<noteq> [] then posix_Clean b
      else [])"

section \<open>Program state and console\<close>

text \<open>
  One constructor for each line the programs print, holding the values formatted into
  it (the fixed text and its decoration are left out):
  the title line; a line of fifty copies of a character (\<^verbatim>\<open>strings.Repeat\<close>); the usage
  text of the help branch; \<^verbatim>\<open>Model: %s\<close>; \<^verbatim>\<open>Output: %s\<close>;
  \<^verbatim>\<open>Checking available files...\<close>; \<^verbatim>\<open>Error getting model files: %v\<close>;
  \<^verbatim>\<open>Found %d files\<close>; \<^verbatim>\<open>Error creating directory: %v\<close>; \<^verbatim>\<open>Starting downloads...\<close>;
  \<^verbatim>\<open>[%d/%d] Downloading %s...\<close>; \<^verbatim>\<open>Failed to download %s: %v\<close>; \<^verbatim>\<open>Downloaded %s\<close>;
  \<^verbatim>\<open>Download complete! %d/%d files downloaded successfully\<close>; \<^verbatim>\<open>Files saved to: %s\<close>;
  and the two lines of the simple version's \<^verbatim>\<open>downloadFile\<close>,
  \<^verbatim>\<open>Downloading %s (%d bytes)...\<close> and \<^verbatim>\<open>Downloaded %s (%d bytes)\<close>.
\<close>

datatype message =
    Banner string
  | Rule char
  | Usage
  | ModelLine string
  | OutputLine string
  | Checking
  | ListingError error
  | Found nat
  | MkdirError string
  | Starting
  | Progress nat nat string
  | Failed string error
  | Downloaded string
  | Complete nat nat
  | SavedTo string
  | FileStart string "64 word"
  | FileDone string nat

text \<open>
  The state the programs change: the lines printed so far and the contents of the
  regular files of the local file system, by path.
\<close>

record state =
  console :: "message list"
  fs :: "string \<Rightarrow> byte list option"

definition emit :: "message list \<Rightarrow> state \<Rightarrow> state" where
  "emit ms s = s\<lparr>console := console s @ ms\<rparr>"

definition write_file :: "string \<Rightarrow> byte list \<Rightarrow> state \<Rightarrow> state" where
  "write_file path bytes s = s\<lparr>fs := (fs s)(path \<mapsto> bytes)\<rparr>"

section \<open>The fetcher\<close>

text \<open>
  The request of \<^verbatim>\<open>downloadFile\<close> (main.go 164-171, part_000 148-155), once
  \<^verbatim>\<open>http.NewRequest\<close> has accepted the URL.
\<close>

definition download_request :: "string \<Rightarrow> request" where
  "download_request downloadURL =
     \<lparr>req_method = ''GET'',
      req_url = downloadURL,
      req_header =
        [(''User-Agent'', ''Mozilla/5.0 (Windows NT 10.0; Win64; x64) AppleWebKit/537.36''),
         (''Accept'', ''*/*'')]\<rparr>"

text \<open>
  \<^verbatim>\<open>func downloadFile(config DownloadConfig, file ModelInfo) error\<close> (main.go 156-223).
  The result is the returned \<^verbatim>\<open>error\<close> (\<open>None\<close> for \<^verbatim>\<open>nil\<close>) and the state after the
  call. \<^verbatim>\<open>os.Create\<close> creates the file or truncates it; \<^verbatim>\<open>io.Copy\<close> then fills it. The
  progress bar exists when \<^verbatim>\<open>file.Size > 0\<close>, with \<^verbatim>\<open>file.Size\<close> as its maximum
  (main.go 193-209), and is then the second writer of the copy (main.go 212-216); what it
  draws is not part of the console modelled here.
\<close>

definition downloadFile :: "env \<Rightarrow> DownloadConfig \<Rightarrow> ModelInfo \<Rightarrow> state \<Rightarrow> error option \<times> state" where
  "downloadFile e config file s =
     (let downloadURL =
            BaseURL config @ ''/'' @ ModelName config @ ''/resolve/main/'' @ Path file;
          outputPath = filepath_Join e (ModelDir config) (Name file)
      in case http_NewRequest e downloadURL of
           Some err \<Rightarrow> (Some (RequestFailed err), s)
         | None \<Rightarrow>
             (case client_Do e (download_request downloadURL) of
                TransportError err \<Rightarrow> (Some (DownloadFailed err), s)
              | Response status body \<Rightarrow>
                  if status \<noteq> 200 then (Some (DownloadStatus status), s)
                  else (case os_Create e outputPath of
                          Some err \<Rightarrow> (Some (CreateFailed err), s)
                        | None \<Rightarrow>
                            (let s1 = write_file outputPath [] s;
                                 bar = (if 0 < sint (Size file) then Some (Size file) else None)
                             in case io_Copy e outputPath bar body of
                                  Some (k, err) \<Rightarrow>
                                    (Some (SaveFailed err), write_file outputPath (take k body) s1)
                                | None \<Rightarrow> (None, write_file outputPath body s1)))))"

text \<open>
  \<^verbatim>\<open>func downloadFile(baseURL, modelName, modelDir string, file ModelInfo) error\<close>
  (part_000 140-187). There is no progress bar; two lines are printed, the second with
  the count \<^verbatim>\<open>written\<close> that \<^verbatim>\<open>io.Copy\<close> returned.
\<close>

definition downloadFile_simple ::
  "env \<Rightarrow> string \<Rightarrow> string \<Rightarrow> string \<Rightarrow> ModelInfo \<Rightarrow> state \<Rightarrow> error option \<times> state" where
  "downloadFile_simple e baseURL modelName modelDir file s =
     (let downloadURL = baseURL @ ''/'' @ modelName @ ''/resolve/main/'' @ Path file;
          outputPath = filepath_Join e modelDir (Name file)
      in case http_NewRequest e downloadURL of
           Some err \<Rightarrow> (Some (RequestFailed err), s)
         | None \<Rightarrow>
             (case client_Do e (download_request downloadURL) of
                TransportError err \<Rightarrow> (Some (DownloadFailed err), s)
              | Response status body \<Rightarrow>
                  if status \<noteq> 200 then (Some (DownloadStatus status), s)
                  else (case os_Create e outputPath of
                          Some err \<Rightarrow> (Some (CreateFailed err), s)
                        | None \<Rightarrow>
                            (let s1 = write_file outputPath [] s;
                                 s2 = emit [FileStart (Name file) (Size file)] s1
                             in case io_Copy e outputPath None body of
                                  Some (k, err) \<Rightarrow>
                                    (Some (SaveFailed err), write_file outputPath (take k body) s2)
                                | None \<Rightarrow>
                                    (let written = length body
                                     in (None, emit [FileDone (Name file) written]
                                                 (write_file outputPath body s2)))))))"

section \<open>The orchestrator\<close>

text \<open>The parsed command-line flags \<^verbatim>\<open>-model\<close>, \<^verbatim>\<open>-output\<close>, \<^verbatim>\<open>-help\<close>.\<close>

record flags =
  flag_model :: string
  flag_output :: string
  flag_help :: bool

text \<open>
  The configuration of the full version (main.go 64-73): the literal, then the model
  directory computed from it.
\<close>

definition resolve_config :: "env \<Rightarrow> flags \<Rightarrow> DownloadConfig" where
  "resolve_config e fl =
     (let config = \<lparr>ModelName = flag_model fl,
                    BaseURL = ''https://huggingface.co'',
                    APIURL = ''https://huggingface.co/api'',
                    OutputDir = flag_output fl,
                    ModelDir = []\<rparr>;
          modelDirName = strings_ReplaceAll (ModelName config) ''/'' ''_''
      in config\<lparr>ModelDir := filepath_Join e (OutputDir config) modelDirName\<rparr>)"

text \<open>The model directory of the simple version (part_000 56-57).\<close>

definition modelDir_simple :: "env \<Rightarrow> flags \<Rightarrow> string" where
  "modelDir_simple e fl =
     (let modelDirName = strings_ReplaceAll (flag_model fl) ''/'' ''_''
      in filepath_Join e (flag_output fl) modelDirName)"

text \<open>
  The download loop (main.go 99-109): \<open>n\<close> is \<^verbatim>\<open>len(files)\<close>, \<open>i\<close> the index of the
  first file of the list still to do, \<open>successCount\<close> the counter.
\<close>

fun download_all ::
  "env \<Rightarrow> DownloadConfig \<Rightarrow> nat \<Rightarrow> nat \<Rightarrow> ModelInfo list \<Rightarrow> nat \<Rightarrow> state \<Rightarrow> nat \<times> state" where
  "download_all e config n i [] successCount s = (successCount, s)"
| "download_all e config n i (file # rest) successCount s =
     (case downloadFile e config file (emit [Progress (i + 1) n (Path file)] s) of
        (Some err, s1) \<Rightarrow>
          download_all e config n (i + 1) rest successCount
            (emit [Failed (Path file) err] s1)
      | (None, s1) \<Rightarrow>
          download_all e config n (i + 1) rest (successCount + 1)
            (emit [Downloaded (Path file)] s1))"

text \<open>The download loop of the simple version (part_000 83-93).\<close>

fun download_all_simple ::
  "env \<Rightarrow> string \<Rightarrow> string \<Rightarrow> string \<Rightarrow> nat \<Rightarrow> nat \<Rightarrow> ModelInfo list \<Rightarrow> nat \<Rightarrow> state
     \<Rightarrow> nat \<times> state" where
  "download_all_simple e baseURL modelName modelDir n i [] successCount s = (successCount, s)"
| "download_all_simple e baseURL modelName modelDir n i (file # rest) successCount s =
     (case downloadFile_simple e baseURL modelName modelDir file
             (emit [Progress (i + 1) n (Path file)] s) of
        (Some err, s1) \<Rightarrow>
          download_all_simple e baseURL modelName modelDir n (i + 1) rest successCount
            (emit [Failed (Path file) err] s1)
      | (None, s1) \<Rightarrow>
          download_all_simple e baseURL modelName modelDir n (i + 1) rest (successCount + 1)
            (emit [Downloaded (Path file)] s1))"

text \<open>
  \<^verbatim>\<open>func main()\<close> of the full version (main.go 34-114). The result is the exit code of
  the process (\<^verbatim>\<open>os.Exit(1)\<close> gives 1, returning from \<^verbatim>\<open>main\<close> gives 0) and the final
  state.
\<close>

definition main :: "env \<Rightarrow> flags \<Rightarrow> state \<Rightarrow> nat \<times> state" where
  "main e fl s =
     (if flag_help fl
      then (0, emit [Banner ''Go Model Downloader (Full Version)'', Rule CHR ''='', Usage] s)
      else
        let config = resolve_config e fl;
            s1 = emit [Banner ''Go Model Downloader (Full Version)'', Rule CHR ''='',
                       ModelLine (ModelName config), OutputLine (ModelDir config),
                       Rule CHR ''='', Checking] s
        in case getModelFiles e config of
             Inl err \<Rightarrow> (1, emit [ListingError err] s1)
           | Inr files \<Rightarrow>
               (let s2 = emit [Found (length files)] s1
                in case os_MkdirAll e (ModelDir config) of
                     Some err \<Rightarrow> (1, emit [MkdirError err] s2)
                   | None \<Rightarrow>
                       (case download_all e config (length files) 0 files 0
                               (emit [Starting, Rule CHR ''-''] s2) of
                          (successCount, s3) \<Rightarrow>
                            (0, emit [Rule CHR ''='',
                                      Complete successCount (length files),
                                      SavedTo (ModelDir config)] s3))))"

text \<open>\<^verbatim>\<open>func main()\<close> of the simple version (part_000 23-98).\<close>

definition main_simple :: "env \<Rightarrow> flags \<Rightarrow> state \<Rightarrow> nat \<times> state" where
  "main_simple e fl s =
     (if flag_help fl
      then (0, emit [Banner ''hugdl - Fast HuggingFace Model Downloader'', Rule CHR ''='',
                     Usage] s)
      else
        let baseURL = ''https://huggingface.co'';
            apiURL = ''https://huggingface.co/api'';
            modelDir = modelDir_simple e fl;
            s1 = emit [Banner ''hugdl - Fast HuggingFace Model Downloader'', Rule CHR ''='',
                       ModelLine (flag_model fl), OutputLine modelDir,
                       Rule CHR ''='', Checking] s
        in case getModelFiles_simple e apiURL (flag_model fl) of
             Inl err \<Rightarrow> (1, emit [ListingError err] s1)
           | Inr files \<Rightarrow>
               (let s2 = emit [Found (length files)] s1
                in case os_MkdirAll e modelDir of
                     Some err \<Rightarrow> (1, emit [MkdirError err] s2)
                   | None \<Rightarrow>
                       (case download_all_simple e baseURL (flag_model fl) modelDir
                               (length files) 0 files 0
                               (emit [Starting, Rule CHR ''-''] s2) of
                          (successCount, s3) \<Rightarrow>
                            (0, emit [Rule CHR ''='',
                                      Complete successCount (length files),
                                      SavedTo modelDir] s3))))"

section \<open>Reading the console\<close>

text \<open>
  The line printed when a download is started (\<^verbatim>\<open>[%d/%d] Downloading %s...\<close>), and the
  two lines that report how it ended (\<^verbatim>\<open>Failed to download\<close>, \<^verbatim>\<open>Downloaded\<close>).
\<close>

fun is_attempt :: "message \<Rightarrow> bool" where
  "is_attempt (Progress i n path) = True"
| "is_attempt m = False"

fun is_outcome :: "message \<Rightarrow> bool" where
  "is_outcome (Failed path err) = True"
| "is_outcome (Downloaded path) = True"
| "is_outcome m = False"

text \<open>
  The line the loop prints for a file once \<^verbatim>\<open>downloadFile\<close> has returned \<open>r\<close>
  (main.go 103-108, part_000 87-92).
\<close>

definition outcome_line :: "string \<Rightarrow> error option \<Rightarrow> message" where
  "outcome_line path r = (case r of Some err \<Rightarrow> Failed path err | None \<Rightarrow> Downloaded path)"

section \<open>A concrete run\<close>

text \<open>
  An environment on which the model can be run, on a Unix-like target: the model
  \<^verbatim>\<open>org/model\<close> lists two files that the server delivers (one at the top level, one in a
  subdirectory), one file for which it answers 404, and a directory; the model
  \<^verbatim>\<open>org/only-dirs\<close> lists a directory only; every other listing request is answered
  with 404. Every local operation succeeds, with or without a progress bar.
\<close>

definition demo_listing :: "apiItem list" where
  "demo_listing =
     [\<lparr>item_Type = ''file'', item_Path = ''config.json'', item_Size = 10\<rparr>,
      \<lparr>item_Type = ''directory'', item_Path = ''subdir'', item_Size = 0\<rparr>,
      \<lparr>item_Type = ''file'', item_Path = ''subdir/missing.bin'', item_Size = 5\<rparr>,
      \<lparr>item_Type = ''file'', item_Path = ''subdir/config.json'', item_Size = 0\<rparr>]"

definition demo_env :: env where
  "demo_env =
     \<lparr>filepath_Base = posix_Base,
      filepath_Join = posix_Join,
      http_Get = (\<lambda>url.
        if url = ''https://huggingface.co/api/models/org/model/tree/main''
        then Response 200 (Inr demo_listing)
        else if url = ''https://huggingface.co/api/models/org/only-dirs/tree/main''
        then Response 200
               (Inr [\<lparr>item_Type = ''directory'', item_Path = ''subdir'', item_Size = 0\<rparr>])
        else Response 404 (Inl ''invalid character'')),
      http_NewRequest = (\<lambda>url. None),
      client_Do = (\<lambda>req.
        if req_url req = ''https://huggingface.co/org/model/resolve/main/config.json''
        then Response 200 [1, 2, 3]
        else if req_url req =
                  ''https://huggingface.co/org/model/resolve/main/subdir/config.json''
        then Response 200 [4, 5, 6, 7, 8]
        else Response 404 []),
      os_MkdirAll = (\<lambda>path. None),
      os_Create = (\<lambda>path. None),
      io_Copy = (\<lambda>path bar body. None)\<rparr>"

definition demo_flags :: flags where
  "demo_flags = \<lparr>flag_model = ''org/model'', flag_output = ''/models'', flag_help = False\<rparr>"

definition demo_config :: DownloadConfig where
  "demo_config =
     \<lparr>ModelName = ''org/model'',
      BaseURL = ''https://huggingface.co'',
      APIURL = ''https://huggingface.co/api'',
      OutputDir = ''/models'',
      ModelDir = ''/models/org_model''\<rparr>"

definition demo_file_top :: ModelInfo where
  "demo_file_top =
     \<lparr>Name = ''config.json'', Type = ''file'', Size = 10, Path = ''config.json''\<rparr>"

definition demo_file_missing :: ModelInfo where
  "demo_file_missing =
     \<lparr>Name = ''missing.bin'', Type = ''file'', Size = 5, Path = ''subdir/missing.bin''\<rparr>"

definition demo_file_nested :: ModelInfo where
  "demo_file_nested =
     \<lparr>Name = ''config.json'', Type = ''file'', Size = 0, Path = ''subdir/config.json''\<rparr>"

definition demo_files :: "ModelInfo list" where
  "demo_files = [demo_file_top, demo_file_missing, demo_file_nested]"

definition demo_state :: state where
  "demo_state = \<lparr>console = [], fs = Map.empty\<rparr>"

section \<open>Properties of the library functions\<close>

lemma strings_ReplaceAll_byte:
  "strings_ReplaceAll s [a] [b] = map (\<lambda>c. if c = a then b else c) s"
  by (induction s) simp_all

lemma strings_ReplaceAll_example:
  "strings_ReplaceAll ''Qwen/Qwen2.5-Coder-0.5B'' ''/'' ''_'' = ''Qwen_Qwen2.5-Coder-0.5B''"
  by (simp add: strings_ReplaceAll_byte)

lemma posix_Base_single_element:
  "CHR ''/'' \<notin> set (posix_Base path) \<or> posix_Base path = ''/''"
  by (auto simp: posix_Base_def Let_def dest: set_takeWhileD)

lemma posix_Base_examples:
  "posix_Base '''' = ''.''"
  "posix_Base ''/'' = ''/''"
  "posix_Base ''config.json'' = ''config.json''"
  "posix_Base ''subdir/config.json'' = ''config.json''"
  "posix_Base ''a/b/'' = ''b''"
  "posix_Base ''a/..'' = ''..''"
  by (simp_all add: posix_Base_def)

lemma posix_Clean_examples:
  "posix_Clean '''' = ''.''"
  "posix_Clean ''//'' = ''/''"
  "posix_Clean ''a/b/'' = ''a/b''"
  "posix_Clean ''a/..'' = ''.''"
  "posix_Clean ''a/../..'' = ''..''"
  "posix_Clean ''/a/../..'' = ''/''"
  "posix_Clean ''../a/../b'' = ''../b''"
  "posix_Clean ''a//b/./c/..'' = ''a/b''"
  "posix_Clean ''/../a'' = ''/a''"
  "posix_Clean ''abc/def/../ghi'' = ''abc/ghi''"
  "posix_Clean ''a/b/../../../c'' = ''../c''"
  by (simp_all add: posix_Clean_def)

lemma posix_Join_examples:
  "posix_Join ''/models'' ''Qwen_Qwen2.5-Coder-0.5B'' = ''/models/Qwen_Qwen2.5-Coder-0.5B''"
  "posix_Join ''/models/org_model'' ''config.json'' = ''/models/org_model/config.json''"
  "posix_Join ''/models/org_model'' ''..'' = ''/models''"
  "posix_Join '''' ''x'' = ''x''"
  "posix_Join '''' '''' = ''''"
  by (simp_all add: posix_Join_def posix_Clean_def)

section \<open>The lister: what a decoded listing becomes\<close>

lemma collect_files_eq:
  "collect_files e items files =
     files @ map (entry_of e) (filter (\<lambda>item. item_Type item = ''file'') items)"
  by (induction items arbitrary: files) simp_all

lemma getModelFiles_decoded:
  assumes "http_Get e (APIURL config @ ''/models/'' @ ModelName config @ ''/tree/main'') =
             Response 200 (Inr items)"
  shows "getModelFiles e config =
           Inr (map (entry_of e) (filter (\<lambda>item. item_Type item = ''file'') items))"
  using assms by (simp add: getModelFiles_def collect_files_eq)

lemma getModelFiles_simple_decoded:
  assumes "http_Get e (apiURL @ ''/models/'' @ modelName @ ''/tree/main'') =
             Response 200 (Inr items)"
  shows "getModelFiles_simple e apiURL modelName =
           Inr (map (entry_of e) (filter (\<lambda>item. item_Type item = ''file'') items))"
  using assms by (simp add: getModelFiles_simple_def collect_files_eq)

lemma demo_listing_request:
  "http_Get demo_env (APIURL demo_config @ ''/models/'' @ ModelName demo_config @ ''/tree/main'') =
     Response 200 (Inr demo_listing)"
  by (simp add: demo_env_def demo_config_def)

lemma demo_entries:
  "map (entry_of demo_env) (filter (\<lambda>item. item_Type item = ''file'') demo_listing) =
     demo_files"
  by (simp add: demo_listing_def demo_files_def demo_file_top_def demo_file_missing_def
        demo_file_nested_def entry_of_def demo_env_def posix_Base_def)

text \<open>
  Claim C1. When the listing request is answered with status 200 and the body decodes to
  \<open>items\<close>, \<^verbatim>\<open>getModelFiles\<close> (in both versions) returns a list with as many entries as
  \<open>items\<close> has items of type \<^verbatim>\<open>"file"\<close>, and the names of the entries are, one by one,
  \<^verbatim>\<open>filepath.Base\<close> of the paths of those items.
\<close>

theorem getModelFiles_count_and_names:
  assumes "http_Get e (APIURL config @ ''/models/'' @ ModelName config @ ''/tree/main'') =
             Response 200 (Inr items)"
  shows "\<exists>files.
           getModelFiles e config = Inr files \<and>
           getModelFiles_simple e (APIURL config) (ModelName config) = Inr files \<and>
           length files = length (filter (\<lambda>item. item_Type item = ''file'') items) \<and>
           map Name files =
             map (\<lambda>item. filepath_Base e (item_Path item))
               (filter (\<lambda>item. item_Type item = ''file'') items)"
proof -
  let ?files = "map (entry_of e) (filter (\<lambda>item. item_Type item = ''file'') items)"
  have "getModelFiles e config = Inr ?files"
    by (rule getModelFiles_decoded [OF assms])
  moreover have "getModelFiles_simple e (APIURL config) (ModelName config) = Inr ?files"
    by (rule getModelFiles_simple_decoded [OF assms])
  moreover have "map Name ?files =
      map (\<lambda>item. filepath_Base e (item_Path item))
        (filter (\<lambda>item. item_Type item = ''file'') items)"
    by (simp add: entry_of_def)
  ultimately show ?thesis by simp
qed

theorem getModelFiles_count_and_names_witness:
  "http_Get demo_env (APIURL demo_config @ ''/models/'' @ ModelName demo_config @ ''/tree/main'') =
     Response 200 (Inr demo_listing) \<and>
   length demo_listing = 4 \<and>
   (\<exists>files.
      getModelFiles demo_env demo_config = Inr files \<and>
      getModelFiles_simple demo_env (APIURL demo_config) (ModelName demo_config) = Inr files \<and>
      length files = 3 \<and>
      map Name files = [''config.json'', ''missing.bin'', ''config.json''])"
proof -
  have "length demo_listing = 4"
    by (simp add: demo_listing_def)
  moreover have "length (filter (\<lambda>item. item_Type item = ''file'') demo_listing) = 3"
    by (simp add: demo_listing_def)
  moreover have "map (\<lambda>item. filepath_Base demo_env (item_Path item))
        (filter (\<lambda>item. item_Type item = ''file'') demo_listing) =
      [''config.json'', ''missing.bin'', ''config.json'']"
    by (simp add: demo_listing_def demo_env_def posix_Base_def)
  ultimately show ?thesis
    using demo_listing_request getModelFiles_count_and_names [OF demo_listing_request]
    by simp
qed

text \<open>
  Claim C7. When the listing request is answered with status 200 and the body decodes to
  items none of which has type \<^verbatim>\<open>"file"\<close>, \<^verbatim>\<open>getModelFiles\<close> returns the empty list
  and no error.
\<close>

theorem no_file_items_gives_empty_list:
  assumes "http_Get e (APIURL config @ ''/models/'' @ ModelName config @ ''/tree/main'') =
             Response 200 (Inr items)"
    and "\<forall>item \<in> set items. item_Type item \<noteq> ''file''"
  shows "getModelFiles e config = Inr []"
proof -
  have "filter (\<lambda>item. item_Type item = ''file'') items = []"
    using assms(2) by (simp add: filter_empty_conv)
  with getModelFiles_decoded [OF assms(1)] show ?thesis by simp
qed

theorem no_file_items_gives_empty_list_witness:
  "http_Get demo_env
     (APIURL (demo_config\<lparr>ModelName := ''org/only-dirs''\<rparr>) @ ''/models/'' @
      ModelName (demo_config\<lparr>ModelName := ''org/only-dirs''\<rparr>) @ ''/tree/main'') =
     Response 200 (Inr [\<lparr>item_Type = ''directory'', item_Path = ''subdir'', item_Size = 0\<rparr>]) \<and>
   item_Type \<lparr>item_Type = ''directory'', item_Path = ''subdir'', item_Size = 0\<rparr> \<noteq> ''file'' \<and>
   getModelFiles demo_env (demo_config\<lparr>ModelName := ''org/only-dirs''\<rparr>) = Inr []"
proof -
  let ?config = "demo_config\<lparr>ModelName := ''org/only-dirs''\<rparr>"
  let ?items = "[\<lparr>item_Type = ''directory'', item_Path = ''subdir'', item_Size = 0\<rparr>]"
  have h1: "http_Get demo_env (APIURL ?config @ ''/models/'' @ ModelName ?config @ ''/tree/main'') =
              Response 200 (Inr ?items)"
    by (simp add: demo_env_def demo_config_def)
  have h2: "\<forall>item \<in> set ?items. item_Type item \<noteq> ''file''"
    by simp
  show ?thesis
    using h1 no_file_items_gives_empty_list [OF h1 h2] by simp
qed

text \<open>
  Claim C8. When the listing request is answered with status 200 and the body decodes to
  \<open>items\<close>, \<^verbatim>\<open>getModelFiles\<close> (in both versions) returns the entries built from the
  items of type \<^verbatim>\<open>"file"\<close>, in the order in which they stand in \<open>items\<close>: the list is
  filtered, never sorted.
\<close>

theorem getModelFiles_keeps_listing_order:
  assumes "http_Get e (APIURL config @ ''/models/'' @ ModelName config @ ''/tree/main'') =
             Response 200 (Inr items)"
  shows "getModelFiles e config =
           Inr (map (entry_of e) (filter (\<lambda>item. item_Type item = ''file'') items)) \<and>
         getModelFiles_simple e (APIURL config) (ModelName config) =
           Inr (map (entry_of e) (filter (\<lambda>item. item_Type item = ''file'') items))"
  using getModelFiles_decoded [OF assms] getModelFiles_simple_decoded [OF assms] by simp

theorem getModelFiles_keeps_listing_order_witness:
  "http_Get demo_env (APIURL demo_config @ ''/models/'' @ ModelName demo_config @ ''/tree/main'') =
     Response 200 (Inr demo_listing) \<and>
   getModelFiles demo_env demo_config = Inr demo_files \<and>
   getModelFiles_simple demo_env (APIURL demo_config) (ModelName demo_config) = Inr demo_files \<and>
   map Path demo_files = [''config.json'', ''subdir/missing.bin'', ''subdir/config.json'']"
proof -
  have "map Path demo_files = [''config.json'', ''subdir/missing.bin'', ''subdir/config.json'']"
    by (simp add: demo_files_def demo_file_top_def demo_file_missing_def demo_file_nested_def)
  then show ?thesis
    using demo_listing_request getModelFiles_keeps_listing_order [OF demo_listing_request]
    by (simp add: demo_entries)
qed

text \<open>
  Claim C10. The two versions of \<^verbatim>\<open>getModelFiles\<close> return the same result on the same
  API URL and model name: the same error, or the same list of entries (hence the same
  length and the same \<open>Name\<close>, \<open>Type\<close>, \<open>Size\<close> and \<open>Path\<close> entry by entry).
\<close>

theorem getModelFiles_versions_agree:
  "getModelFiles e config = getModelFiles_simple e (APIURL config) (ModelName config)"
  by (simp add: getModelFiles_def getModelFiles_simple_def)

theorem getModelFiles_versions_agree_witness:
  "getModelFiles demo_env demo_config =
     getModelFiles_simple demo_env (APIURL demo_config) (ModelName demo_config) \<and>
   getModelFiles demo_env demo_config = Inr demo_files"
  using getModelFiles_versions_agree [of demo_env demo_config]
        getModelFiles_decoded [OF demo_listing_request]
  by (simp add: demo_entries)

section \<open>The configuration\<close>

lemma demo_resolve_config: "resolve_config demo_env demo_flags = demo_config"
  by (simp add: resolve_config_def demo_env_def demo_flags_def demo_config_def Let_def
        strings_ReplaceAll_byte posix_Join_def posix_Clean_def)

lemma demo_modelDir_simple: "modelDir_simple demo_env demo_flags = ''/models/org_model''"
  by (simp add: modelDir_simple_def demo_env_def demo_flags_def Let_def
        strings_ReplaceAll_byte posix_Join_def posix_Clean_def)

text \<open>
  Claim C4. The model directory computed by \<^verbatim>\<open>main\<close> (in both versions) is
  \<^verbatim>\<open>filepath.Join\<close> of the output root and the model identifier in which every
  \<^verbatim>\<open>/\<close> has become \<^verbatim>\<open>_\<close> and every other character is kept.
\<close>

theorem model_dir_replaces_slashes:
  "ModelDir (resolve_config e fl) =
     filepath_Join e (flag_output fl)
       (map (\<lambda>c. if c = CHR ''/'' then CHR ''_'' else c) (flag_model fl)) \<and>
   modelDir_simple e fl =
     filepath_Join e (flag_output fl)
       (map (\<lambda>c. if c = CHR ''/'' then CHR ''_'' else c) (flag_model fl))"
  by (simp add: resolve_config_def modelDir_simple_def Let_def strings_ReplaceAll_byte)

theorem model_dir_replaces_slashes_witness:
  "ModelDir (resolve_config demo_env
      \<lparr>flag_model = ''Qwen/Qwen2.5-Coder-0.5B'', flag_output = ''/models'', flag_help = False\<rparr>) =
     ''/models/Qwen_Qwen2.5-Coder-0.5B'' \<and>
   modelDir_simple demo_env
      \<lparr>flag_model = ''Qwen/Qwen2.5-Coder-0.5B'', flag_output = ''/models'', flag_help = False\<rparr> =
     ''/models/Qwen_Qwen2.5-Coder-0.5B''"
  using model_dir_replaces_slashes [of demo_env
      "\<lparr>flag_model = ''Qwen/Qwen2.5-Coder-0.5B'', flag_output = ''/models'', flag_help = False\<rparr>"]
  by (simp add: demo_env_def posix_Join_def posix_Clean_def)

section \<open>The fetcher: what a download changes\<close>

lemma downloadFile_error_state_independent:
  "fst (downloadFile e config file s) = fst (downloadFile e config file s')"
  by (simp add: downloadFile_def Let_def split: option.splits http_result.splits prod.splits)

lemma downloadFile_simple_error_state_independent:
  "fst (downloadFile_simple e baseURL modelName modelDir file s) =
   fst (downloadFile_simple e baseURL modelName modelDir file s')"
  by (simp add: downloadFile_simple_def Let_def
        split: option.splits http_result.splits prod.splits)

lemma downloadFile_console:
  "console (snd (downloadFile e config file s)) = console s"
  by (simp add: downloadFile_def Let_def write_file_def
        split: option.splits http_result.splits prod.splits)

lemma downloadFile_simple_attempts:
  "filter is_attempt (console (snd (downloadFile_simple e baseURL modelName modelDir file s))) =
   filter is_attempt (console s)"
  by (simp add: downloadFile_simple_def Let_def write_file_def emit_def
        split: option.splits http_result.splits prod.splits)

lemma downloadFile_simple_outcomes:
  "filter is_outcome (console (snd (downloadFile_simple e baseURL modelName modelDir file s))) =
   filter is_outcome (console s)"
  by (simp add: downloadFile_simple_def Let_def write_file_def emit_def
        split: option.splits http_result.splits prod.splits)

lemma downloadFile_fs_elsewhere:
  "p \<noteq> filepath_Join e (ModelDir config) (Name file) \<Longrightarrow>
   fs (snd (downloadFile e config file s)) p = fs s p"
  by (simp add: downloadFile_def Let_def write_file_def
        split: option.splits http_result.splits prod.splits)

lemma downloadFile_simple_fs_elsewhere:
  "p \<noteq> filepath_Join e modelDir (Name file) \<Longrightarrow>
   fs (snd (downloadFile_simple e baseURL modelName modelDir file s)) p = fs s p"
  by (simp add: downloadFile_simple_def Let_def write_file_def emit_def
        split: option.splits http_result.splits prod.splits)

lemma downloadFile_success:
  assumes "fst (downloadFile e config file s) = None"
  shows "\<exists>body.
           client_Do e (download_request
             (BaseURL config @ ''/'' @ ModelName config @ ''/resolve/main/'' @ Path file)) =
             Response 200 body \<and>
           fs (snd (downloadFile e config file s)) =
             (fs s)(filepath_Join e (ModelDir config) (Name file) \<mapsto> body)"
  using assms
  by (auto simp add: downloadFile_def Let_def write_file_def
        split: option.splits http_result.splits prod.splits if_splits)

lemma downloadFile_simple_success:
  assumes "fst (downloadFile_simple e baseURL modelName modelDir file s) = None"
  shows "\<exists>body.
           client_Do e (download_request
             (baseURL @ ''/'' @ modelName @ ''/resolve/main/'' @ Path file)) =
             Response 200 body \<and>
           fs (snd (downloadFile_simple e baseURL modelName modelDir file s)) =
             (fs s)(filepath_Join e modelDir (Name file) \<mapsto> body)"
  using assms
  by (auto simp add: downloadFile_simple_def Let_def write_file_def emit_def
        split: option.splits http_result.splits prod.splits if_splits)

text \<open>
  What a download leaves in the file system depends on the file system it starts from
  only, and what the simple version prints does not depend on the state.
\<close>

lemma downloadFile_fs_cong:
  "fs s = fs s' \<Longrightarrow>
   fs (snd (downloadFile e config file s)) = fs (snd (downloadFile e config file s'))"
  by (simp add: downloadFile_def Let_def write_file_def
        split: option.splits http_result.splits prod.splits)


lemma downloadFile_simple_fs_cong:
  "fs s = fs s' \<Longrightarrow>
   fs (snd (downloadFile_simple e baseURL modelName modelDir file s)) =
   fs (snd (downloadFile_simple e baseURL modelName modelDir file s'))"
  by (simp add: downloadFile_simple_def Let_def write_file_def emit_def
        split: option.splits http_result.splits prod.splits)

lemma downloadFile_simple_console:
  "console (snd (downloadFile_simple e baseURL modelName modelDir file s)) =
   console s @
   drop (length (console s0))
     (console (snd (downloadFile_simple e baseURL modelName modelDir file s0)))"
  by (simp add: downloadFile_simple_def Let_def write_file_def emit_def
        split: option.splits http_result.splits prod.splits)

lemma fold_downloadFile_fs_cong:
  "fs s = fs s' \<Longrightarrow>
   fs (fold (\<lambda>file st. snd (downloadFile e config file st)) files s) =
   fs (fold (\<lambda>file st. snd (downloadFile e config file st)) files s')"
proof (induction files arbitrary: s s')
  case Nil
  then show ?case by simp
next
  case (Cons f rest)
  have "fs (snd (downloadFile e config f s)) = fs (snd (downloadFile e config f s'))"
    using Cons.prems by (rule downloadFile_fs_cong)
  from Cons.IH [OF this] show ?case
    by simp
qed

lemma fold_downloadFile_simple_fs_cong:
  "fs s = fs s' \<Longrightarrow>
   fs (fold (\<lambda>file st. snd (downloadFile_simple e baseURL modelName modelDir file st)) files s) =
   fs (fold (\<lambda>file st. snd (downloadFile_simple e baseURL modelName modelDir file st)) files s')"
proof (induction files arbitrary: s s')
  case Nil
  then show ?case by simp
next
  case (Cons f rest)
  have "fs (snd (downloadFile_simple e baseURL modelName modelDir f s)) =
        fs (snd (downloadFile_simple e baseURL modelName modelDir f s'))"
    using Cons.prems by (rule downloadFile_simple_fs_cong)
  from Cons.IH [OF this] show ?case
    by simp
qed

text \<open>
  The copy that fails: the full version hands the declared size to the progress bar, and
  an error of the copy (which may come from the bar) is returned with the bytes that had
  reached the file left in it.
\<close>

lemma downloadFile_copy_fails:
  assumes "http_NewRequest e
             (BaseURL config @ ''/'' @ ModelName config @ ''/resolve/main/'' @ Path file) = None"
    and "client_Do e (download_request
             (BaseURL config @ ''/'' @ ModelName config @ ''/resolve/main/'' @ Path file)) =
           Response 200 body"
    and "os_Create e (filepath_Join e (ModelDir config) (Name file)) = None"
    and "io_Copy e (filepath_Join e (ModelDir config) (Name file))
           (if 0 < sint (Size file) then Some (Size file) else None) body = Some (k, msg)"
  shows "downloadFile e config file s =
           (Some (SaveFailed msg),
            s\<lparr>fs := (fs s)(filepath_Join e (ModelDir config) (Name file) \<mapsto> take k body)\<rparr>)"
  using assms by (simp add: downloadFile_def Let_def write_file_def)

text \<open>The three downloads of the concrete run, from any state.\<close>

lemma demo_download_top:
  "downloadFile demo_env demo_config demo_file_top s =
     (None, s\<lparr>fs := (fs s)(''/models/org_model/config.json'' \<mapsto> [1, 2, 3])\<rparr>)"
  by (simp add: downloadFile_def demo_env_def demo_config_def demo_file_top_def
        download_request_def write_file_def Let_def posix_Join_def posix_Clean_def)

lemma demo_download_missing:
  "downloadFile demo_env demo_config demo_file_missing s = (Some (DownloadStatus 404), s)"
  by (simp add: downloadFile_def demo_env_def demo_config_def demo_file_missing_def
        download_request_def Let_def)

lemma demo_download_nested:
  "downloadFile demo_env demo_config demo_file_nested s =
     (None, s\<lparr>fs := (fs s)(''/models/org_model/config.json'' \<mapsto> [4, 5, 6, 7, 8])\<rparr>)"
  by (simp add: downloadFile_def demo_env_def demo_config_def demo_file_nested_def
        download_request_def write_file_def Let_def posix_Join_def posix_Clean_def)

lemma demo_download_simple_top:
  "downloadFile_simple demo_env ''https://huggingface.co'' ''org/model'' ''/models/org_model''
     demo_file_top s =
     (None, s\<lparr>console := console s @ [FileStart ''config.json'' 10, FileDone ''config.json'' 3],
              fs := (fs s)(''/models/org_model/config.json'' \<mapsto> [1, 2, 3])\<rparr>)"
  by (simp add: downloadFile_simple_def demo_env_def demo_file_top_def
        download_request_def write_file_def emit_def Let_def posix_Join_def posix_Clean_def)

lemma demo_download_simple_missing:
  "downloadFile_simple demo_env ''https://huggingface.co'' ''org/model'' ''/models/org_model''
     demo_file_missing s = (Some (DownloadStatus 404), s)"
  by (simp add: downloadFile_simple_def demo_env_def demo_file_missing_def
        download_request_def Let_def)

lemma demo_download_simple_nested:
  "downloadFile_simple demo_env ''https://huggingface.co'' ''org/model'' ''/models/org_model''
     demo_file_nested s =
     (None, s\<lparr>console := console s @ [FileStart ''config.json'' 0, FileDone ''config.json'' 5],
              fs := (fs s)(''/models/org_model/config.json'' \<mapsto> [4, 5, 6, 7, 8])\<rparr>)"
  by (simp add: downloadFile_simple_def demo_env_def demo_file_nested_def
        download_request_def write_file_def emit_def Let_def posix_Join_def posix_Clean_def)

text \<open>
  Claim C5. An entry built by \<^verbatim>\<open>getModelFiles\<close> has as its name \<^verbatim>\<open>filepath.Base\<close> of
  its path; on a Unix-like target that name holds no separator (unless it is \<^verbatim>\<open>/\<close>
  itself). \<^verbatim>\<open>downloadFile\<close> (in both versions) changes no file other than the one at
  \<^verbatim>\<open>filepath.Join\<close> of the model directory and the entry's name, and when it returns
  no error that file holds what was downloaded. So the directories in an entry's path do
  not appear under the model directory.
\<close>

theorem downloadFile_output_is_flat:
  "Name (entry_of e item) = filepath_Base e (item_Path item) \<and>
   (CHR ''/'' \<notin> set (posix_Base (item_Path item)) \<or> posix_Base (item_Path item) = ''/'') \<and>
   (\<forall>p. p \<noteq> filepath_Join e (ModelDir config) (Name file) \<longrightarrow>
        fs (snd (downloadFile e config file s)) p = fs s p) \<and>
   (\<forall>p. p \<noteq> filepath_Join e modelDir (Name file) \<longrightarrow>
        fs (snd (downloadFile_simple e baseURL modelName modelDir file s)) p = fs s p) \<and>
   (fst (downloadFile e config file s) = None \<longrightarrow>
      (\<exists>body. fs (snd (downloadFile e config file s)) =
                 (fs s)(filepath_Join e (ModelDir config) (Name file) \<mapsto> body))) \<and>
   (fst (downloadFile_simple e baseURL modelName modelDir file s) = None \<longrightarrow>
      (\<exists>body. fs (snd (downloadFile_simple e baseURL modelName modelDir file s)) =
                 (fs s)(filepath_Join e modelDir (Name file) \<mapsto> body)))"
proof -
  have a: "Name (entry_of e item) = filepath_Base e (item_Path item)"
    by (simp add: entry_of_def)
  have b: "CHR ''/'' \<notin> set (posix_Base (item_Path item)) \<or> posix_Base (item_Path item) = ''/''"
    by (rule posix_Base_single_element)
  have c: "fst (downloadFile e config file s) = None \<longrightarrow>
      (\<exists>body. fs (snd (downloadFile e config file s)) =
                 (fs s)(filepath_Join e (ModelDir config) (Name file) \<mapsto> body))"
    using downloadFile_success [of e config "file" s] by blast
  have d: "fst (downloadFile_simple e baseURL modelName modelDir file s) = None \<longrightarrow>
      (\<exists>body. fs (snd (downloadFile_simple e baseURL modelName modelDir file s)) =
                 (fs s)(filepath_Join e modelDir (Name file) \<mapsto> body))"
    using downloadFile_simple_success [of e baseURL modelName modelDir "file" s] by blast
  show ?thesis
    using a b c d downloadFile_fs_elsewhere downloadFile_simple_fs_elsewhere by blast
qed

theorem downloadFile_output_is_flat_witness:
  "entry_of demo_env
     \<lparr>item_Type = ''file'', item_Path = ''subdir/config.json'', item_Size = 0\<rparr> =
     demo_file_nested \<and>
   Name demo_file_nested = ''config.json'' \<and>
   CHR ''/'' \<notin> set (posix_Base ''subdir/config.json'') \<and>
   filepath_Join demo_env (ModelDir demo_config) (Name demo_file_nested) =
     ''/models/org_model/config.json'' \<and>
   ''/models/org_model/subdir/config.json'' \<noteq>
     filepath_Join demo_env (ModelDir demo_config) (Name demo_file_nested) \<and>
   fst (downloadFile demo_env demo_config demo_file_nested demo_state) = None \<and>
   fst (downloadFile_simple demo_env ''https://huggingface.co'' ''org/model''
          ''/models/org_model'' demo_file_nested demo_state) = None \<and>
   fs (snd (downloadFile demo_env demo_config demo_file_nested demo_state))
     ''/models/org_model/subdir/config.json'' = None \<and>
   fs (snd (downloadFile_simple demo_env ''https://huggingface.co'' ''org/model''
              ''/models/org_model'' demo_file_nested demo_state))
     ''/models/org_model/subdir/config.json'' = None \<and>
   fs (snd (downloadFile demo_env demo_config demo_file_nested demo_state))
     ''/models/org_model/config.json'' = Some [4, 5, 6, 7, 8] \<and>
   fs (snd (downloadFile_simple demo_env ''https://huggingface.co'' ''org/model''
              ''/models/org_model'' demo_file_nested demo_state))
     ''/models/org_model/config.json'' = Some [4, 5, 6, 7, 8]"
proof -
  let ?item = "\<lparr>item_Type = ''file'', item_Path = ''subdir/config.json'', item_Size = 0\<rparr>"
  have e1: "entry_of demo_env ?item = demo_file_nested"
    by (simp add: entry_of_def demo_env_def demo_file_nested_def posix_Base_def)
  have e2: "Name demo_file_nested = ''config.json''"
    by (simp add: demo_file_nested_def)
  have e3: "CHR ''/'' \<notin> set (posix_Base ''subdir/config.json'')"
    by (simp add: posix_Base_def)
  have e4: "filepath_Join demo_env (ModelDir demo_config) (Name demo_file_nested) =
              ''/models/org_model/config.json''"
    by (simp add: demo_env_def demo_config_def demo_file_nested_def posix_Join_def posix_Clean_def)
  have e5: "''/models/org_model/subdir/config.json'' \<noteq>
              filepath_Join demo_env (ModelDir demo_config) (Name demo_file_nested)"
    by (simp add: e4)
  have e6: "ModelDir demo_config = ''/models/org_model''"
    by (simp add: demo_config_def)
  have e7: "fs demo_state ''/models/org_model/subdir/config.json'' = None"
    by (simp add: demo_state_def)
  show ?thesis
    using e1 e2 e3 e4 e5 e7
      downloadFile_output_is_flat [of demo_env ?item demo_config demo_file_nested demo_state
        "''/models/org_model''" "''https://huggingface.co''" "''org/model''"]
    by (simp add: demo_download_nested demo_download_simple_nested e6)
qed

text \<open>
  Claim C9. When the download request fails at the transport level, or is answered with
  a status other than 200, \<^verbatim>\<open>downloadFile\<close> (in both versions) returns an error and
  leaves the state as it was: \<^verbatim>\<open>os.Create\<close> is not reached, so no local file is created
  or truncated. When \<^verbatim>\<open>http.NewRequest\<close> accepted the URL, the error is the one of the
  failed request or of the status.
\<close>

theorem failed_request_leaves_file_untouched:
  assumes "client_Do e (download_request
             (BaseURL config @ ''/'' @ ModelName config @ ''/resolve/main/'' @ Path file)) = r"
    and "r = TransportError msg \<or> r = Response status body \<and> status \<noteq> 200"
  shows "fst (downloadFile e config file s) \<noteq> None \<and>
         snd (downloadFile e config file s) = s \<and>
         fst (downloadFile_simple e (BaseURL config) (ModelName config) (ModelDir config) file s)
           \<noteq> None \<and>
         snd (downloadFile_simple e (BaseURL config) (ModelName config) (ModelDir config) file s)
           = s \<and>
         (http_NewRequest e
            (BaseURL config @ ''/'' @ ModelName config @ ''/resolve/main/'' @ Path file) = None \<longrightarrow>
          fst (downloadFile e config file s) =
            Some (case r of TransportError m \<Rightarrow> DownloadFailed m
                          | Response st b \<Rightarrow> DownloadStatus st) \<and>
          fst (downloadFile_simple e (BaseURL config) (ModelName config) (ModelDir config) file s) =
            Some (case r of TransportError m \<Rightarrow> DownloadFailed m
                          | Response st b \<Rightarrow> DownloadStatus st))"
  using assms
  by (auto simp add: downloadFile_def downloadFile_simple_def Let_def
        split: option.splits)

theorem failed_request_leaves_file_untouched_witness:
  "client_Do demo_env (download_request
     (BaseURL demo_config @ ''/'' @ ModelName demo_config @ ''/resolve/main/'' @
      Path demo_file_missing)) = Response 404 [] \<and>
   (404::int) \<noteq> 200 \<and>
   http_NewRequest demo_env
     (BaseURL demo_config @ ''/'' @ ModelName demo_config @ ''/resolve/main/'' @
      Path demo_file_missing) = None \<and>
   downloadFile demo_env demo_config demo_file_missing demo_state =
     (Some (DownloadStatus 404), demo_state) \<and>
   downloadFile_simple demo_env (BaseURL demo_config) (ModelName demo_config)
     (ModelDir demo_config) demo_file_missing demo_state =
     (Some (DownloadStatus 404), demo_state)"
proof -
  let ?url = "BaseURL demo_config @ ''/'' @ ModelName demo_config @ ''/resolve/main/'' @
              Path demo_file_missing"
  have h1: "client_Do demo_env (download_request ?url) = Response 404 []"
    by (simp add: demo_env_def demo_config_def demo_file_missing_def download_request_def)
  have h2: "Response 404 [] = TransportError [] \<or>
            Response 404 [] = Response 404 ([]::byte list) \<and> (404::int) \<noteq> 200"
    by simp
  have h3: "http_NewRequest demo_env ?url = None"
    by (simp add: demo_env_def)
  show ?thesis
    using h1 h3 failed_request_leaves_file_untouched [OF h1 h2, of demo_state]
    by (simp add: prod_eq_iff)
qed

text \<open>
  Claim C6, as the specification has it, is that \<^verbatim>\<open>downloadFile\<close> returns the count of
  bytes written. The function returns an \<^verbatim>\<open>error\<close> and nothing else. In the concrete
  run the download of the first file writes three bytes and that of the third writes
  five, and both return the same value, \<^verbatim>\<open>nil\<close>: the count cannot be read off the
  result, in either version.
\<close>

theorem downloadFile_result_is_not_byte_count:
  "fst (downloadFile demo_env demo_config demo_file_top demo_state) = None \<and>
   fst (downloadFile demo_env demo_config demo_file_nested demo_state) = None \<and>
   map_option length
     (fs (snd (downloadFile demo_env demo_config demo_file_top demo_state))
        ''/models/org_model/config.json'') = Some 3 \<and>
   map_option length
     (fs (snd (downloadFile demo_env demo_config demo_file_nested demo_state))
        ''/models/org_model/config.json'') = Some 5 \<and>
   fst (downloadFile_simple demo_env ''https://huggingface.co'' ''org/model''
          ''/models/org_model'' demo_file_top demo_state) = None \<and>
   fst (downloadFile_simple demo_env ''https://huggingface.co'' ''org/model''
          ''/models/org_model'' demo_file_nested demo_state) = None \<and>
   map_option length
     (fs (snd (downloadFile_simple demo_env ''https://huggingface.co'' ''org/model''
                 ''/models/org_model'' demo_file_top demo_state))
        ''/models/org_model/config.json'') = Some 3 \<and>
   map_option length
     (fs (snd (downloadFile_simple demo_env ''https://huggingface.co'' ''org/model''
                 ''/models/org_model'' demo_file_nested demo_state))
        ''/models/org_model/config.json'') = Some 5"
  by (simp add: demo_download_top demo_download_nested demo_download_simple_top
        demo_download_simple_nested)

text \<open>
  Claim C6, amended. When the request is accepted, the response has status 200, the
  local file is created and \<^verbatim>\<open>io.Copy\<close> copies the whole body without error,
  \<^verbatim>\<open>downloadFile\<close> returns \<^verbatim>\<open>nil\<close> and no byte count; the file at the output path then
  holds exactly the body. The full version changes nothing else; the simple version
  prints two lines, the second with the number of bytes of the body, which is the count
  \<^verbatim>\<open>io.Copy\<close> returned.
\<close>

theorem successful_download_returns_nil:
  assumes "http_NewRequest e
             (BaseURL config @ ''/'' @ ModelName config @ ''/resolve/main/'' @ Path file) = None"
    and "client_Do e (download_request
             (BaseURL config @ ''/'' @ ModelName config @ ''/resolve/main/'' @ Path file)) =
           Response 200 body"
    and "os_Create e (filepath_Join e (ModelDir config) (Name file)) = None"
  shows "(io_Copy e (filepath_Join e (ModelDir config) (Name file))
            (if 0 < sint (Size file) then Some (Size file) else None) body = None \<longrightarrow>
          downloadFile e config file s =
            (None, s\<lparr>fs := (fs s)(filepath_Join e (ModelDir config) (Name file) \<mapsto> body)\<rparr>)) \<and>
         (io_Copy e (filepath_Join e (ModelDir config) (Name file)) None body = None \<longrightarrow>
          downloadFile_simple e (BaseURL config) (ModelName config) (ModelDir config) file s =
            (None, s\<lparr>console := console s @
                        [FileStart (Name file) (Size file), FileDone (Name file) (length body)],
                      fs := (fs s)(filepath_Join e (ModelDir config) (Name file) \<mapsto> body)\<rparr>))"
  using assms
  by (auto simp add: downloadFile_def downloadFile_simple_def Let_def write_file_def emit_def)

theorem successful_download_returns_nil_witness:
  "http_NewRequest demo_env
     (BaseURL demo_config @ ''/'' @ ModelName demo_config @ ''/resolve/main/'' @
      Path demo_file_top) = None \<and>
   client_Do demo_env (download_request
     (BaseURL demo_config @ ''/'' @ ModelName demo_config @ ''/resolve/main/'' @
      Path demo_file_top)) = Response 200 [1, 2, 3] \<and>
   os_Create demo_env (filepath_Join demo_env (ModelDir demo_config) (Name demo_file_top)) = None \<and>
   io_Copy demo_env (filepath_Join demo_env (ModelDir demo_config) (Name demo_file_top))
     (if 0 < sint (Size demo_file_top) then Some (Size demo_file_top) else None) [1, 2, 3] =
     None \<and>
   io_Copy demo_env (filepath_Join demo_env (ModelDir demo_config) (Name demo_file_top))
     None [1, 2, 3] = None \<and>
   filepath_Join demo_env (ModelDir demo_config) (Name demo_file_top) =
     ''/models/org_model/config.json'' \<and>
   downloadFile demo_env demo_config demo_file_top demo_state =
     (None, demo_state\<lparr>fs := (fs demo_state)(''/models/org_model/config.json'' \<mapsto> [1, 2, 3])\<rparr>) \<and>
   downloadFile_simple demo_env (BaseURL demo_config) (ModelName demo_config)
     (ModelDir demo_config) demo_file_top demo_state =
     (None, demo_state\<lparr>console := console demo_state @
                          [FileStart ''config.json'' 10, FileDone ''config.json'' 3],
                        fs := (fs demo_state)(''/models/org_model/config.json'' \<mapsto> [1, 2, 3])\<rparr>)"
proof -
  let ?url = "BaseURL demo_config @ ''/'' @ ModelName demo_config @ ''/resolve/main/'' @
              Path demo_file_top"
  let ?path = "filepath_Join demo_env (ModelDir demo_config) (Name demo_file_top)"
  have h1: "http_NewRequest demo_env ?url = None"
    by (simp add: demo_env_def)
  have h2: "client_Do demo_env (download_request ?url) = Response 200 [1, 2, 3]"
    by (simp add: demo_env_def demo_config_def demo_file_top_def download_request_def)
  have h3: "os_Create demo_env ?path = None"
    by (simp add: demo_env_def)
  have h4: "io_Copy demo_env ?path
              (if 0 < sint (Size demo_file_top) then Some (Size demo_file_top) else None)
              [1, 2, 3] = None"
    by (simp add: demo_env_def)
  have h5: "io_Copy demo_env ?path None [1, 2, 3] = None"
    by (simp add: demo_env_def)
  have h6: "?path = ''/models/org_model/config.json''"
    by (simp add: demo_env_def demo_config_def demo_file_top_def posix_Join_def posix_Clean_def)
  have h7: "Name demo_file_top = ''config.json''" "Size demo_file_top = 10"
    by (simp_all add: demo_file_top_def)
  show ?thesis
    using h1 h2 h3 h4 h5 h6 h7
      successful_download_returns_nil [OF h1 h2 h3, of demo_state]
    by simp
qed

section \<open>The orchestrator: what a run prints and how it exits\<close>

lemma download_all_attempts:
  "filter is_attempt (console (snd (download_all e config n i files c s))) =
   filter is_attempt (console s) @
   map (\<lambda>(k, file). Progress (k + 1) n (Path file)) (enumerate i files)"
proof (induction files arbitrary: i c s)
  case Nil
  show ?case by simp
next
  case (Cons f rest)
  let ?s = "emit [Progress (i + 1) n (Path f)] s"
  obtain r s1 where run: "downloadFile e config f ?s = (r, s1)"
    by (cases "downloadFile e config f ?s")
  have c1: "console s1 = console s @ [Progress (i + 1) n (Path f)]"
    using downloadFile_console [of e config f ?s] run by (simp add: emit_def)
  show ?case
  proof (cases r)
    case None
    with run c1 Cons.IH [of "i + 1" "c + 1" "emit [Downloaded (Path f)] s1"]
    show ?thesis by (simp add: emit_def)
  next
    case (Some err)
    with run c1 Cons.IH [of "i + 1" c "emit [Failed (Path f) err] s1"]
    show ?thesis by (simp add: emit_def)
  qed
qed

lemma download_all_outcomes:
  "filter is_outcome (console (snd (download_all e config n i files c s))) =
   filter is_outcome (console s) @
   map (\<lambda>file. outcome_line (Path file) (fst (downloadFile e config file s0))) files"
proof (induction files arbitrary: i c s)
  case Nil
  show ?case by simp
next
  case (Cons f rest)
  let ?s = "emit [Progress (i + 1) n (Path f)] s"
  obtain r s1 where run: "downloadFile e config f ?s = (r, s1)"
    by (cases "downloadFile e config f ?s")
  have c1: "console s1 = console s @ [Progress (i + 1) n (Path f)]"
    using downloadFile_console [of e config f ?s] run by (simp add: emit_def)
  have r0: "fst (downloadFile e config f s0) = r"
    using downloadFile_error_state_independent [of e config f s0 ?s] run by simp
  show ?case
  proof (cases r)
    case None
    with run c1 r0 Cons.IH [of "i + 1" "c + 1" "emit [Downloaded (Path f)] s1"]
    show ?thesis by (simp add: emit_def outcome_line_def)
  next
    case (Some err)
    with run c1 r0 Cons.IH [of "i + 1" c "emit [Failed (Path f) err] s1"]
    show ?thesis by (simp add: emit_def outcome_line_def)
  qed
qed

lemma download_all_simple_attempts:
  "filter is_attempt
     (console (snd (download_all_simple e baseURL modelName modelDir n i files c s))) =
   filter is_attempt (console s) @
   map (\<lambda>(k, file). Progress (k + 1) n (Path file)) (enumerate i files)"
proof (induction files arbitrary: i c s)
  case Nil
  show ?case by simp
next
  case (Cons f rest)
  let ?s = "emit [Progress (i + 1) n (Path f)] s"
  obtain r s1 where run: "downloadFile_simple e baseURL modelName modelDir f ?s = (r, s1)"
    by (cases "downloadFile_simple e baseURL modelName modelDir f ?s")
  have c1: "filter is_attempt (console s1) =
              filter is_attempt (console s) @ [Progress (i + 1) n (Path f)]"
    using downloadFile_simple_attempts [of e baseURL modelName modelDir f ?s] run
    by (simp add: emit_def)
  show ?case
  proof (cases r)
    case None
    with run c1 Cons.IH [of "i + 1" "c + 1" "emit [Downloaded (Path f)] s1"]
    show ?thesis by (simp add: emit_def)
  next
    case (Some err)
    with run c1 Cons.IH [of "i + 1" c "emit [Failed (Path f) err] s1"]
    show ?thesis by (simp add: emit_def)
  qed
qed

lemma download_all_simple_outcomes:
  "filter is_outcome
     (console (snd (download_all_simple e baseURL modelName modelDir n i files c s))) =
   filter is_outcome (console s) @
   map (\<lambda>file. outcome_line (Path file)
                 (fst (downloadFile_simple e baseURL modelName modelDir file s0))) files"
proof (induction files arbitrary: i c s)
  case Nil
  show ?case by simp
next
  case (Cons f rest)
  let ?s = "emit [Progress (i + 1) n (Path f)] s"
  obtain r s1 where run: "downloadFile_simple e baseURL modelName modelDir f ?s = (r, s1)"
    by (cases "downloadFile_simple e baseURL modelName modelDir f ?s")
  have c1: "filter is_outcome (console s1) = filter is_outcome (console s)"
    using downloadFile_simple_outcomes [of e baseURL modelName modelDir f ?s] run
    by (simp add: emit_def)
  have r0: "fst (downloadFile_simple e baseURL modelName modelDir f s0) = r"
    using downloadFile_simple_error_state_independent
            [of e baseURL modelName modelDir f s0 ?s] run
    by simp
  show ?case
  proof (cases r)
    case None
    with run c1 r0 Cons.IH [of "i + 1" "c + 1" "emit [Downloaded (Path f)] s1"]
    show ?thesis by (simp add: emit_def outcome_line_def)
  next
    case (Some err)
    with run c1 r0 Cons.IH [of "i + 1" c "emit [Failed (Path f) err] s1"]
    show ?thesis by (simp add: emit_def outcome_line_def)
  qed
qed

text \<open>
  What the loop hands on: the file system after it is the one the downloads of the
  entries, one after the other, leave; the counter has grown by the number of entries
  whose download returned no error; and the console has grown by the lines of each entry
  in turn.
\<close>

lemma download_all_fs:
  "fs (snd (download_all e config n i files c s)) =
   fs (fold (\<lambda>file st. snd (downloadFile e config file st)) files s)"
proof (induction files arbitrary: i c s)
  case Nil
  show ?case by simp
next
  case (Cons f rest)
  let ?s = "emit [Progress (i + 1) n (Path f)] s"
  let ?F = "\<lambda>file st. snd (downloadFile e config file st)"
  obtain r s1 where run: "downloadFile e config f ?s = (r, s1)"
    by (cases "downloadFile e config f ?s")
  have "fs ?s = fs s"
    by (simp add: emit_def)
  then have f1: "fs s1 = fs (snd (downloadFile e config f s))"
    using downloadFile_fs_cong [of ?s s e config f] run by simp
  have step: "fs (fold ?F rest (emit ms s1)) = fs (fold ?F (f # rest) s)" for ms
  proof -
    have "fs (emit ms s1) = fs (snd (downloadFile e config f s))"
      using f1 by (simp add: emit_def)
    then show ?thesis
      using fold_downloadFile_fs_cong [of "emit ms s1" "snd (downloadFile e config f s)" e config rest]
      by simp
  qed
  show ?case
  proof (cases r)
    case None
    with run Cons.IH [of "i + 1" "c + 1" "emit [Downloaded (Path f)] s1"] step
    show ?thesis by simp
  next
    case (Some err)
    with run Cons.IH [of "i + 1" c "emit [Failed (Path f) err] s1"] step
    show ?thesis by simp
  qed
qed

lemma download_all_simple_fs:
  "fs (snd (download_all_simple e baseURL modelName modelDir n i files c s)) =
   fs (fold (\<lambda>file st. snd (downloadFile_simple e baseURL modelName modelDir file st)) files s)"
proof (induction files arbitrary: i c s)
  case Nil
  show ?case by simp
next
  case (Cons f rest)
  let ?s = "emit [Progress (i + 1) n (Path f)] s"
  let ?F = "\<lambda>file st. snd (downloadFile_simple e baseURL modelName modelDir file st)"
  obtain r s1 where run: "downloadFile_simple e baseURL modelName modelDir f ?s = (r, s1)"
    by (cases "downloadFile_simple e baseURL modelName modelDir f ?s")
  have "fs ?s = fs s"
    by (simp add: emit_def)
  then have f1: "fs s1 = fs (snd (downloadFile_simple e baseURL modelName modelDir f s))"
    using downloadFile_simple_fs_cong [of ?s s e baseURL modelName modelDir f] run by simp
  have step: "fs (fold ?F rest (emit ms s1)) = fs (fold ?F (f # rest) s)" for ms
  proof -
    have "fs (emit ms s1) = fs (snd (downloadFile_simple e baseURL modelName modelDir f s))"
      using f1 by (simp add: emit_def)
    then show ?thesis
      using fold_downloadFile_simple_fs_cong
              [of "emit ms s1" "snd (downloadFile_simple e baseURL modelName modelDir f s)"
                  e baseURL modelName modelDir rest]
      by simp
  qed
  show ?case
  proof (cases r)
    case None
    with run Cons.IH [of "i + 1" "c + 1" "emit [Downloaded (Path f)] s1"] step
    show ?thesis by simp
  next
    case (Some err)
    with run Cons.IH [of "i + 1" c "emit [Failed (Path f) err] s1"] step
    show ?thesis by simp
  qed
qed

lemma download_all_count:
  "fst (download_all e config n i files c s) =
   c + length (filter (\<lambda>file. fst (downloadFile e config file s0) = None) files)"
proof (induction files arbitrary: i c s)
  case Nil
  show ?case by simp
next
  case (Cons f rest)
  let ?s = "emit [Progress (i + 1) n (Path f)] s"
  obtain r s1 where run: "downloadFile e config f ?s = (r, s1)"
    by (cases "downloadFile e config f ?s")
  have r0: "fst (downloadFile e config f s0) = r"
    using downloadFile_error_state_independent [of e config f s0 ?s] run by simp
  show ?case
  proof (cases r)
    case None
    with run r0 Cons.IH [of "i + 1" "c + 1" "emit [Downloaded (Path f)] s1"]
    show ?thesis by simp
  next
    case (Some err)
    with run r0 Cons.IH [of "i + 1" c "emit [Failed (Path f) err] s1"]
    show ?thesis by simp
  qed
qed

lemma download_all_simple_count:
  "fst (download_all_simple e baseURL modelName modelDir n i files c s) =
   c + length (filter (\<lambda>file. fst (downloadFile_simple e baseURL modelName modelDir file s0) = None)
                 files)"
proof (induction files arbitrary: i c s)
  case Nil
  show ?case by simp
next
  case (Cons f rest)
  let ?s = "emit [Progress (i + 1) n (Path f)] s"
  obtain r s1 where run: "downloadFile_simple e baseURL modelName modelDir f ?s = (r, s1)"
    by (cases "downloadFile_simple e baseURL modelName modelDir f ?s")
  have r0: "fst (downloadFile_simple e baseURL modelName modelDir f s0) = r"
    using downloadFile_simple_error_state_independent
            [of e baseURL modelName modelDir f s0 ?s] run
    by simp
  show ?case
  proof (cases r)
    case None
    with run r0 Cons.IH [of "i + 1" "c + 1" "emit [Downloaded (Path f)] s1"]
    show ?thesis by simp
  next
    case (Some err)
    with run r0 Cons.IH [of "i + 1" c "emit [Failed (Path f) err] s1"]
    show ?thesis by simp
  qed
qed

lemma download_all_console:
  "console (snd (download_all e config n i files c s)) =
   console s @
   concat (map (\<lambda>(k, file).
                  [Progress (k + 1) n (Path file),
                   outcome_line (Path file) (fst (downloadFile e config file s0))])
             (enumerate i files))"
proof (induction files arbitrary: i c s)
  case Nil
  show ?case by simp
next
  case (Cons f rest)
  let ?s = "emit [Progress (i + 1) n (Path f)] s"
  obtain r s1 where run: "downloadFile e config f ?s = (r, s1)"
    by (cases "downloadFile e config f ?s")
  have c1: "console s1 = console s @ [Progress (i + 1) n (Path f)]"
    using downloadFile_console [of e config f ?s] run by (simp add: emit_def)
  have r0: "fst (downloadFile e config f s0) = r"
    using downloadFile_error_state_independent [of e config f s0 ?s] run by simp
  show ?case
  proof (cases r)
    case None
    with run c1 r0 Cons.IH [of "i + 1" "c + 1" "emit [Downloaded (Path f)] s1"]
    show ?thesis by (simp add: emit_def outcome_line_def)
  next
    case (Some err)
    with run c1 r0 Cons.IH [of "i + 1" c "emit [Failed (Path f) err] s1"]
    show ?thesis by (simp add: emit_def outcome_line_def)
  qed
qed

lemma download_all_simple_console:
  "console (snd (download_all_simple e baseURL modelName modelDir n i files c s)) =
   console s @
   concat (map (\<lambda>(k, file).
                  Progress (k + 1) n (Path file) #
                  drop (length (console s0))
                    (console (snd (downloadFile_simple e baseURL modelName modelDir file s0))) @
                  [outcome_line (Path file)
                     (fst (downloadFile_simple e baseURL modelName modelDir file s0))])
             (enumerate i files))"
proof (induction files arbitrary: i c s)
  case Nil
  show ?case by simp
next
  case (Cons f rest)
  let ?s = "emit [Progress (i + 1) n (Path f)] s"
  obtain r s1 where run: "downloadFile_simple e baseURL modelName modelDir f ?s = (r, s1)"
    by (cases "downloadFile_simple e baseURL modelName modelDir f ?s")
  have c1: "console s1 = console s @ [Progress (i + 1) n (Path f)] @
              drop (length (console s0))
                (console (snd (downloadFile_simple e baseURL modelName modelDir f s0)))"
    using downloadFile_simple_console [of e baseURL modelName modelDir f ?s s0] run
    by (simp add: emit_def)
  have r0: "fst (downloadFile_simple e baseURL modelName modelDir f s0) = r"
    using downloadFile_simple_error_state_independent
            [of e baseURL modelName modelDir f s0 ?s] run
    by simp
  show ?case
  proof (cases r)
    case None
    with run c1 r0 Cons.IH [of "i + 1" "c + 1" "emit [Downloaded (Path f)] s1"]
    show ?thesis by (simp add: emit_def outcome_line_def)
  next
    case (Some err)
    with run c1 r0 Cons.IH [of "i + 1" c "emit [Failed (Path f) err] s1"]
    show ?thesis by (simp add: emit_def outcome_line_def)
  qed
qed

text \<open>A run of the full version whose listing and directory creation succeed.\<close>

lemma main_completes:
  assumes "\<not> flag_help fl"
    and "getModelFiles e (resolve_config e fl) = Inr files"
    and "os_MkdirAll e (ModelDir (resolve_config e fl)) = None"
  shows "fst (main e fl s) = 0 \<and>
         filter is_attempt (console (snd (main e fl s))) =
           filter is_attempt (console s) @
           map (\<lambda>(k, file). Progress (k + 1) (length files) (Path file)) (enumerate 0 files) \<and>
         filter is_outcome (console (snd (main e fl s))) =
           filter is_outcome (console s) @
           map (\<lambda>file. outcome_line (Path file)
                          (fst (downloadFile e (resolve_config e fl) file s))) files"
proof -
  let ?config = "resolve_config e fl"
  let ?s2 = "emit [Starting, Rule CHR ''-'']
              (emit [Found (length files)]
                (emit [Banner ''Go Model Downloader (Full Version)'', Rule CHR ''='',
                       ModelLine (ModelName ?config), OutputLine (ModelDir ?config),
                       Rule CHR ''='', Checking] s))"
  obtain k s3 where loop: "download_all e ?config (length files) 0 files 0 ?s2 = (k, s3)"
    by (cases "download_all e ?config (length files) 0 files 0 ?s2")
  have run: "main e fl s =
      (0, emit [Rule CHR ''='', Complete k (length files), SavedTo (ModelDir ?config)] s3)"
    using assms loop by (simp add: main_def Let_def)
  have a: "filter is_attempt (console s3) =
      filter is_attempt (console ?s2) @
      map (\<lambda>(k, file). Progress (k + 1) (length files) (Path file)) (enumerate 0 files)"
    using download_all_attempts [of e ?config "length files" 0 files 0 ?s2] loop by simp
  have b: "filter is_outcome (console s3) =
      filter is_outcome (console ?s2) @
      map (\<lambda>file. outcome_line (Path file) (fst (downloadFile e ?config file s))) files"
    using download_all_outcomes [of e ?config "length files" 0 files 0 ?s2 s] loop by simp
  show ?thesis
    using run a b by (simp add: emit_def)
qed

text \<open>The same for the simple version.\<close>

lemma main_simple_completes:
  assumes "\<not> flag_help fl"
    and "getModelFiles_simple e ''https://huggingface.co/api'' (flag_model fl) = Inr files"
    and "os_MkdirAll e (modelDir_simple e fl) = None"
  shows "fst (main_simple e fl s) = 0 \<and>
         filter is_attempt (console (snd (main_simple e fl s))) =
           filter is_attempt (console s) @
           map (\<lambda>(k, file). Progress (k + 1) (length files) (Path file)) (enumerate 0 files) \<and>
         filter is_outcome (console (snd (main_simple e fl s))) =
           filter is_outcome (console s) @
           map (\<lambda>file. outcome_line (Path file)
                          (fst (downloadFile_simple e ''https://huggingface.co'' (flag_model fl)
                                  (modelDir_simple e fl) file s))) files"
proof -
  let ?dir = "modelDir_simple e fl"
  let ?base = "''https://huggingface.co''"
  let ?s2 = "emit [Starting, Rule CHR ''-'']
              (emit [Found (length files)]
                (emit [Banner ''hugdl - Fast HuggingFace Model Downloader'', Rule CHR ''='',
                       ModelLine (flag_model fl), OutputLine ?dir,
                       Rule CHR ''='', Checking] s))"
  obtain k s3 where loop:
    "download_all_simple e ?base (flag_model fl) ?dir (length files) 0 files 0 ?s2 = (k, s3)"
    by (cases "download_all_simple e ?base (flag_model fl) ?dir (length files) 0 files 0 ?s2")
  have run: "main_simple e fl s =
      (0, emit [Rule CHR ''='', Complete k (length files), SavedTo ?dir] s3)"
    using assms loop by (simp add: main_simple_def Let_def)
  have a: "filter is_attempt (console s3) =
      filter is_attempt (console ?s2) @
      map (\<lambda>(k, file). Progress (k + 1) (length files) (Path file)) (enumerate 0 files)"
    using download_all_simple_attempts
            [of e ?base "flag_model fl" ?dir "length files" 0 files 0 ?s2] loop
    by simp
  have b: "filter is_outcome (console s3) =
      filter is_outcome (console ?s2) @
      map (\<lambda>file. outcome_line (Path file)
                     (fst (downloadFile_simple e ?base (flag_model fl) ?dir file s))) files"
    using download_all_simple_outcomes
            [of e ?base "flag_model fl" ?dir "length files" 0 files 0 ?s2 s] loop
    by simp
  show ?thesis
    using run a b by (simp add: emit_def)
qed

lemma resolve_config_fields:
  "ModelName (resolve_config e fl) = flag_model fl"
  "BaseURL (resolve_config e fl) = ''https://huggingface.co''"
  "APIURL (resolve_config e fl) = ''https://huggingface.co/api''"
  "OutputDir (resolve_config e fl) = flag_output fl"
  "ModelDir (resolve_config e fl) = modelDir_simple e fl"
  by (simp_all add: resolve_config_def modelDir_simple_def Let_def)

text \<open>The whole console and the file system at the end of such a run, full version.\<close>

lemma main_final_state:
  assumes "\<not> flag_help fl"
    and "getModelFiles e (resolve_config e fl) = Inr files"
    and "os_MkdirAll e (ModelDir (resolve_config e fl)) = None"
  shows "console (snd (main e fl s)) =
           console s @
           [Banner ''Go Model Downloader (Full Version)'', Rule CHR ''='',
            ModelLine (flag_model fl), OutputLine (ModelDir (resolve_config e fl)),
            Rule CHR ''='', Checking, Found (length files), Starting, Rule CHR ''-''] @
           concat (map (\<lambda>(k, file).
                          [Progress (k + 1) (length files) (Path file),
                           outcome_line (Path file)
                             (fst (downloadFile e (resolve_config e fl) file s))])
                     (enumerate 0 files)) @
           [Rule CHR ''='',
            Complete (length (filter (\<lambda>file. fst (downloadFile e (resolve_config e fl) file s) = None)
                                files))
                     (length files),
            SavedTo (ModelDir (resolve_config e fl))] \<and>
         fs (snd (main e fl s)) =
           fs (fold (\<lambda>file st. snd (downloadFile e (resolve_config e fl) file st)) files s)"
proof -
  let ?config = "resolve_config e fl"
  let ?s2 = "emit [Starting, Rule CHR ''-'']
              (emit [Found (length files)]
                (emit [Banner ''Go Model Downloader (Full Version)'', Rule CHR ''='',
                       ModelLine (ModelName ?config), OutputLine (ModelDir ?config),
                       Rule CHR ''='', Checking] s))"
  obtain k s3 where loop: "download_all e ?config (length files) 0 files 0 ?s2 = (k, s3)"
    by (cases "download_all e ?config (length files) 0 files 0 ?s2")
  have run: "main e fl s =
      (0, emit [Rule CHR ''='', Complete k (length files), SavedTo (ModelDir ?config)] s3)"
    using assms loop by (simp add: main_def Let_def)
  have k: "k = length (filter (\<lambda>file. fst (downloadFile e ?config file s) = None) files)"
    using download_all_count [of e ?config "length files" 0 files 0 ?s2 s] loop by simp
  have c: "console s3 =
      console ?s2 @
      concat (map (\<lambda>(k, file).
                     [Progress (k + 1) (length files) (Path file),
                      outcome_line (Path file) (fst (downloadFile e ?config file s))])
                (enumerate 0 files))"
    using download_all_console [of e ?config "length files" 0 files 0 ?s2 s] loop by simp
  have "fs ?s2 = fs s"
    by (simp add: emit_def)
  then have f: "fs s3 = fs (fold (\<lambda>file st. snd (downloadFile e ?config file st)) files s)"
    using download_all_fs [of e ?config "length files" 0 files 0 ?s2] loop
      fold_downloadFile_fs_cong [of ?s2 s e ?config files]
    by simp
  have m: "ModelName ?config = flag_model fl"
    by (simp add: resolve_config_fields)
  show ?thesis
    unfolding run using k c f m by (simp add: emit_def)
qed

text \<open>The same for the simple version.\<close>

lemma main_simple_final_state:
  assumes "\<not> flag_help fl"
    and "getModelFiles_simple e ''https://huggingface.co/api'' (flag_model fl) = Inr files"
    and "os_MkdirAll e (modelDir_simple e fl) = None"
  shows "console (snd (main_simple e fl s)) =
           console s @
           [Banner ''hugdl - Fast HuggingFace Model Downloader'', Rule CHR ''='',
            ModelLine (flag_model fl), OutputLine (modelDir_simple e fl),
            Rule CHR ''='', Checking, Found (length files), Starting, Rule CHR ''-''] @
           concat (map (\<lambda>(k, file).
                          Progress (k + 1) (length files) (Path file) #
                          drop (length (console s))
                            (console (snd (downloadFile_simple e ''https://huggingface.co''
                                             (flag_model fl) (modelDir_simple e fl) file s))) @
                          [outcome_line (Path file)
                             (fst (downloadFile_simple e ''https://huggingface.co''
                                     (flag_model fl) (modelDir_simple e fl) file s))])
                     (enumerate 0 files)) @
           [Rule CHR ''='',
            Complete (length (filter (\<lambda>file. fst (downloadFile_simple e ''https://huggingface.co''
                                                  (flag_model fl) (modelDir_simple e fl) file s) = None)
                                files))
                     (length files),
            SavedTo (modelDir_simple e fl)] \<and>
         fs (snd (main_simple e fl s)) =
           fs (fold (\<lambda>file st. snd (downloadFile_simple e ''https://huggingface.co''
                                       (flag_model fl) (modelDir_simple e fl) file st)) files s)"
proof -
  let ?dir = "modelDir_simple e fl"
  let ?base = "''https://huggingface.co''"
  let ?s2 = "emit [Starting, Rule CHR ''-'']
              (emit [Found (length files)]
                (emit [Banner ''hugdl - Fast HuggingFace Model Downloader'', Rule CHR ''='',
                       ModelLine (flag_model fl), OutputLine ?dir,
                       Rule CHR ''='', Checking] s))"
  obtain k s3 where loop:
    "download_all_simple e ?base (flag_model fl) ?dir (length files) 0 files 0 ?s2 = (k, s3)"
    by (cases "download_all_simple e ?base (flag_model fl) ?dir (length files) 0 files 0 ?s2")
  have run: "main_simple e fl s =
      (0, emit [Rule CHR ''='', Complete k (length files), SavedTo ?dir] s3)"
    using assms loop by (simp add: main_simple_def Let_def)
  have k: "k = length (filter (\<lambda>file. fst (downloadFile_simple e ?base (flag_model fl) ?dir
                                           file s) = None) files)"
    using download_all_simple_count
            [of e ?base "flag_model fl" ?dir "length files" 0 files 0 ?s2 s] loop
    by simp
  have c: "console s3 =
      console ?s2 @
      concat (map (\<lambda>(k, file).
                     Progress (k + 1) (length files) (Path file) #
                     drop (length (console s))
                       (console (snd (downloadFile_simple e ?base (flag_model fl) ?dir file s))) @
                     [outcome_line (Path file)
                        (fst (downloadFile_simple e ?base (flag_model fl) ?dir file s))])
                (enumerate 0 files))"
    using download_all_simple_console
            [of e ?base "flag_model fl" ?dir "length files" 0 files 0 ?s2 s] loop
    by simp
  have "fs ?s2 = fs s"
    by (simp add: emit_def)
  then have f: "fs s3 =
      fs (fold (\<lambda>file st. snd (downloadFile_simple e ?base (flag_model fl) ?dir file st)) files s)"
    using download_all_simple_fs [of e ?base "flag_model fl" ?dir "length files" 0 files 0 ?s2] loop
      fold_downloadFile_simple_fs_cong [of ?s2 s e ?base "flag_model fl" ?dir files]
    by simp
  show ?thesis
    unfolding run using k c f by (simp add: emit_def)
qed

text \<open>
  Claim C2. When the help flag is not set, the listing succeeds with \<open>files\<close> and the
  output directory is created, the run (in both versions) exits with code 0 whatever the
  downloads do. It starts a download for every entry of \<open>files\<close>, in order, also after
  one that failed, and it reports one outcome per entry, in order, which is a failure
  exactly for the entries whose \<^verbatim>\<open>downloadFile\<close> returned an error, with that error.
  The console at the end is the one at the start followed by the opening lines, then for
  each entry in order its start line, what \<^verbatim>\<open>downloadFile\<close> printed for it and its
  outcome line, then the closing lines, whose count of successes is the number of entries
  whose \<^verbatim>\<open>downloadFile\<close> returned no error. The file system at the end is the one left
  by calling \<^verbatim>\<open>downloadFile\<close> on every entry of \<open>files\<close>, one after the other, from the
  file system at the start.
  (What \<^verbatim>\<open>downloadFile\<close> returns and prints for an entry does not depend on the state it
  is called in, so both are read here in the initial state.)
\<close>

theorem failed_download_does_not_stop_run:
  assumes "\<not> flag_help fl"
    and "getModelFiles e (resolve_config e fl) = Inr files"
    and "os_MkdirAll e (ModelDir (resolve_config e fl)) = None"
  shows "fst (main e fl s) = 0 \<and>
         filter is_attempt (console (snd (main e fl s))) =
           filter is_attempt (console s) @
           map (\<lambda>(k, file). Progress (k + 1) (length files) (Path file)) (enumerate 0 files) \<and>
         filter is_outcome (console (snd (main e fl s))) =
           filter is_outcome (console s) @
           map (\<lambda>file. outcome_line (Path file)
                          (fst (downloadFile e (resolve_config e fl) file s))) files \<and>
         console (snd (main e fl s)) =
           console s @
           [Banner ''Go Model Downloader (Full Version)'', Rule CHR ''='',
            ModelLine (flag_model fl), OutputLine (ModelDir (resolve_config e fl)),
            Rule CHR ''='', Checking, Found (length files), Starting, Rule CHR ''-''] @
           concat (map (\<lambda>(k, file).
                          [Progress (k + 1) (length files) (Path file),
                           outcome_line (Path file)
                             (fst (downloadFile e (resolve_config e fl) file s))])
                     (enumerate 0 files)) @
           [Rule CHR ''='',
            Complete (length (filter (\<lambda>file. fst (downloadFile e (resolve_config e fl) file s) = None)
                                files))
                     (length files),
            SavedTo (ModelDir (resolve_config e fl))] \<and>
         fs (snd (main e fl s)) =
           fs (fold (\<lambda>file st. snd (downloadFile e (resolve_config e fl) file st)) files s) \<and>
         fst (main_simple e fl s) = 0 \<and>
         filter is_attempt (console (snd (main_simple e fl s))) =
           filter is_attempt (console s) @
           map (\<lambda>(k, file). Progress (k + 1) (length files) (Path file)) (enumerate 0 files) \<and>
         filter is_outcome (console (snd (main_simple e fl s))) =
           filter is_outcome (console s) @
           map (\<lambda>file. outcome_line (Path file)
                          (fst (downloadFile_simple e ''https://huggingface.co'' (flag_model fl)
                                  (modelDir_simple e fl) file s))) files \<and>
         console (snd (main_simple e fl s)) =
           console s @
           [Banner ''hugdl - Fast HuggingFace Model Downloader'', Rule CHR ''='',
            ModelLine (flag_model fl), OutputLine (modelDir_simple e fl),
            Rule CHR ''='', Checking, Found (length files), Starting, Rule CHR ''-''] @
           concat (map (\<lambda>(k, file).
                          Progress (k + 1) (length files) (Path file) #
                          drop (length (console s))
                            (console (snd (downloadFile_simple e ''https://huggingface.co''
                                             (flag_model fl) (modelDir_simple e fl) file s))) @
                          [outcome_line (Path file)
                             (fst (downloadFile_simple e ''https://huggingface.co''
                                     (flag_model fl) (modelDir_simple e fl) file s))])
                     (enumerate 0 files)) @
           [Rule CHR ''='',
            Complete (length (filter (\<lambda>file. fst (downloadFile_simple e ''https://huggingface.co''
                                                  (flag_model fl) (modelDir_simple e fl) file s) = None)
                                files))
                     (length files),
            SavedTo (modelDir_simple e fl)] \<and>
         fs (snd (main_simple e fl s)) =
           fs (fold (\<lambda>file st. snd (downloadFile_simple e ''https://huggingface.co''
                                       (flag_model fl) (modelDir_simple e fl) file st)) files s)"
proof -
  have g: "getModelFiles_simple e ''https://huggingface.co/api'' (flag_model fl) = Inr files"
    using assms(2)
    by (simp add: getModelFiles_def getModelFiles_simple_def resolve_config_fields)
  have d: "os_MkdirAll e (modelDir_simple e fl) = None"
    using assms(3) by (simp add: resolve_config_fields)
  note full = main_completes [OF assms, of s] main_final_state [OF assms, of s]
  note simple = main_simple_completes [OF assms(1) g d, of s]
    main_simple_final_state [OF assms(1) g d, of s]
  from full simple show ?thesis
    by blast
qed

theorem failed_download_does_not_stop_run_witness:
  "\<not> flag_help demo_flags \<and>
   getModelFiles demo_env (resolve_config demo_env demo_flags) = Inr demo_files \<and>
   os_MkdirAll demo_env (ModelDir (resolve_config demo_env demo_flags)) = None \<and>
   fst (downloadFile demo_env demo_config demo_file_missing demo_state) =
     Some (DownloadStatus 404) \<and>
   fst (main demo_env demo_flags demo_state) = 0 \<and>
   filter is_attempt (console (snd (main demo_env demo_flags demo_state))) =
     [Progress 1 3 ''config.json'', Progress 2 3 ''subdir/missing.bin'',
      Progress 3 3 ''subdir/config.json''] \<and>
   filter is_outcome (console (snd (main demo_env demo_flags demo_state))) =
     [Downloaded ''config.json'', Failed ''subdir/missing.bin'' (DownloadStatus 404),
      Downloaded ''subdir/config.json''] \<and>
   console (snd (main demo_env demo_flags demo_state)) =
     [Banner ''Go Model Downloader (Full Version)'', Rule CHR ''='',
      ModelLine ''org/model'', OutputLine ''/models/org_model'', Rule CHR ''='', Checking,
      Found 3, Starting, Rule CHR ''-'',
      Progress 1 3 ''config.json'', Downloaded ''config.json'',
      Progress 2 3 ''subdir/missing.bin'', Failed ''subdir/missing.bin'' (DownloadStatus 404),
      Progress 3 3 ''subdir/config.json'', Downloaded ''subdir/config.json'',
      Rule CHR ''='', Complete 2 3, SavedTo ''/models/org_model''] \<and>
   fs (snd (main demo_env demo_flags demo_state)) ''/models/org_model/config.json'' =
     Some [4, 5, 6, 7, 8] \<and>
   fs (snd (main demo_env demo_flags demo_state)) ''/models/org_model/missing.bin'' = None \<and>
   fst (main_simple demo_env demo_flags demo_state) = 0 \<and>
   filter is_attempt (console (snd (main_simple demo_env demo_flags demo_state))) =
     [Progress 1 3 ''config.json'', Progress 2 3 ''subdir/missing.bin'',
      Progress 3 3 ''subdir/config.json''] \<and>
   filter is_outcome (console (snd (main_simple demo_env demo_flags demo_state))) =
     [Downloaded ''config.json'', Failed ''subdir/missing.bin'' (DownloadStatus 404),
      Downloaded ''subdir/config.json''] \<and>
   console (snd (main_simple demo_env demo_flags demo_state)) =
     [Banner ''hugdl - Fast HuggingFace Model Downloader'', Rule CHR ''='',
      ModelLine ''org/model'', OutputLine ''/models/org_model'', Rule CHR ''='', Checking,
      Found 3, Starting, Rule CHR ''-'',
      Progress 1 3 ''config.json'',
      FileStart ''config.json'' 10, FileDone ''config.json'' 3, Downloaded ''config.json'',
      Progress 2 3 ''subdir/missing.bin'', Failed ''subdir/missing.bin'' (DownloadStatus 404),
      Progress 3 3 ''subdir/config.json'',
      FileStart ''config.json'' 0, FileDone ''config.json'' 5, Downloaded ''subdir/config.json'',
      Rule CHR ''='', Complete 2 3, SavedTo ''/models/org_model''] \<and>
   fs (snd (main_simple demo_env demo_flags demo_state)) ''/models/org_model/config.json'' =
     Some [4, 5, 6, 7, 8] \<and>
   fs (snd (main_simple demo_env demo_flags demo_state)) ''/models/org_model/missing.bin'' = None"
proof -
  have h1: "\<not> flag_help demo_flags"
    by (simp add: demo_flags_def)
  have h2: "getModelFiles demo_env (resolve_config demo_env demo_flags) = Inr demo_files"
    using getModelFiles_decoded [OF demo_listing_request]
    by (simp add: demo_resolve_config demo_entries)
  have h3: "os_MkdirAll demo_env (ModelDir (resolve_config demo_env demo_flags)) = None"
    by (simp add: demo_env_def)
  have p: "Path demo_file_top = ''config.json''"
          "Path demo_file_missing = ''subdir/missing.bin''"
          "Path demo_file_nested = ''subdir/config.json''"
    by (simp_all add: demo_file_top_def demo_file_missing_def demo_file_nested_def)
  have m: "flag_model demo_flags = ''org/model''"
    by (simp add: demo_flags_def)
  have c: "console demo_state = []" "fs demo_state = Map.empty"
    by (simp_all add: demo_state_def)
  have n: "enumerate 0 demo_files =
             [(0, demo_file_top), (1, demo_file_missing), (2, demo_file_nested)]"
          "length demo_files = 3"
    by (simp_all add: demo_files_def)
  have d: "ModelDir demo_config = ''/models/org_model''"
    by (simp add: demo_config_def)
  show ?thesis
    using h1 h2 h3 failed_download_does_not_stop_run [OF h1 h2 h3, of demo_state]
    by (simp add: n c m p d demo_resolve_config demo_modelDir_simple outcome_line_def
          demo_download_top demo_download_missing demo_download_nested
          demo_download_simple_top demo_download_simple_missing demo_download_simple_nested
          demo_files_def)
qed

text \<open>
  Claim C3. When the listing request is answered with a status other than 200,
  \<^verbatim>\<open>getModelFiles\<close> (in both versions) returns the error that carries that status; and a
  run without the help flag whose configuration is the one of the request then exits
  with code 1, its last line being that error, with no local file changed.
\<close>

theorem listing_status_not_ok:
  assumes "http_Get e (APIURL config @ ''/models/'' @ ModelName config @ ''/tree/main'') =
             Response status body"
    and "status \<noteq> 200"
  shows "getModelFiles e config = Inl (ApiStatus status) \<and>
         getModelFiles_simple e (APIURL config) (ModelName config) = Inl (ApiStatus status) \<and>
         (\<not> flag_help fl \<and> resolve_config e fl = config \<longrightarrow>
            fst (main e fl s) = 1 \<and>
            last (console (snd (main e fl s))) = ListingError (ApiStatus status) \<and>
            fs (snd (main e fl s)) = fs s \<and>
            fst (main_simple e fl s) = 1 \<and>
            last (console (snd (main_simple e fl s))) = ListingError (ApiStatus status) \<and>
            fs (snd (main_simple e fl s)) = fs s)"
proof -
  have g: "getModelFiles e config = Inl (ApiStatus status)"
    using assms by (simp add: getModelFiles_def)
  have gs: "getModelFiles_simple e (APIURL config) (ModelName config) = Inl (ApiStatus status)"
    using assms by (simp add: getModelFiles_simple_def)
  have m: "fst (main e fl s) = 1 \<and>
           last (console (snd (main e fl s))) = ListingError (ApiStatus status) \<and>
           fs (snd (main e fl s)) = fs s"
    if "\<not> flag_help fl" "resolve_config e fl = config"
    using that g by (simp add: main_def Let_def emit_def)
  have ms: "fst (main_simple e fl s) = 1 \<and>
           last (console (snd (main_simple e fl s))) = ListingError (ApiStatus status) \<and>
           fs (snd (main_simple e fl s)) = fs s"
    if "\<not> flag_help fl" "resolve_config e fl = config"
  proof -
    have "APIURL config = ''https://huggingface.co/api''" "ModelName config = flag_model fl"
      using that(2) resolve_config_fields [of e fl] by auto
    with gs have "getModelFiles_simple e ''https://huggingface.co/api'' (flag_model fl) =
                    Inl (ApiStatus status)"
      by simp
    with that(1) show ?thesis
      by (simp add: main_simple_def Let_def emit_def)
  qed
  show ?thesis using g gs m ms by blast
qed

theorem listing_status_not_ok_witness:
  "http_Get demo_env
     (APIURL (resolve_config demo_env (demo_flags\<lparr>flag_model := ''org/none''\<rparr>)) @ ''/models/'' @
      ModelName (resolve_config demo_env (demo_flags\<lparr>flag_model := ''org/none''\<rparr>)) @
      ''/tree/main'') = Response 404 (Inl ''invalid character'') \<and>
   (404::int) \<noteq> 200 \<and>
   \<not> flag_help (demo_flags\<lparr>flag_model := ''org/none''\<rparr>) \<and>
   getModelFiles demo_env (resolve_config demo_env (demo_flags\<lparr>flag_model := ''org/none''\<rparr>)) =
     Inl (ApiStatus 404) \<and>
   fst (main demo_env (demo_flags\<lparr>flag_model := ''org/none''\<rparr>) demo_state) = 1 \<and>
   fst (main_simple demo_env (demo_flags\<lparr>flag_model := ''org/none''\<rparr>) demo_state) = 1"
proof -
  let ?fl = "demo_flags\<lparr>flag_model := ''org/none''\<rparr>"
  let ?config = "resolve_config demo_env ?fl"
  have h1: "http_Get demo_env (APIURL ?config @ ''/models/'' @ ModelName ?config @ ''/tree/main'') =
              Response 404 (Inl ''invalid character'')"
    by (simp add: resolve_config_fields demo_env_def demo_flags_def)
  have h2: "(404::int) \<noteq> 200"
    by simp
  have h3: "\<not> flag_help ?fl"
    by (simp add: demo_flags_def)
  show ?thesis
    using h1 h2 h3 listing_status_not_ok [OF h1 h2, of ?fl demo_state]
    by simp
qed

end
